theory Spec2Isabelle
  imports Main
begin

section \<open>Values of the host language\<close>

text \<open>
  The scene engine works on untyped, JSON-like values: scene definitions, triggers,
  conditions, actions and device attributes are dictionaries of such values. Numbers are
  integers here (floating point is left out), the characters of a string are the code
  points below 256, and a dictionary is an association list in which the first binding
  of a key is the dictionary's binding.
\<close>

datatype json =
    JNull
  | JBool bool
  | JInt int
  | JStr string
  | JList "json list"
  | JObj "(string \<times> json) list"

type_synonym dict = "(string \<times> json) list"

text \<open>
  Exceptions, one constructor per class. The classes of \<^verbatim>\<open>exceptions.py\<close> keep
  their fields; the interpreter's and the libraries' own exceptions carry their message.
  \<open>ValidationError\<close> is the validation library's: it carries the text of the library's
  report.
\<close>

datatype exn =
    TypeError string
  | ValueError string
  | KeyError string
  | AttributeError string
  | OverflowError string
  | ValidationError string
  | SceneDefinitionError string
  | SceneExecutionError string string
  | HALCommunicationError string
  | JobLookupError string
  | OtherException string

subsection \<open>Truthiness, type names, hashing\<close>

fun truthy :: "json \<Rightarrow> bool" where
  "truthy JNull = False"
| "truthy (JBool b) = b"
| "truthy (JInt i) = (i \<noteq> 0)"
| "truthy (JStr s) = (s \<noteq> [])"
| "truthy (JList xs) = (xs \<noteq> [])"
| "truthy (JObj kvs) = (kvs \<noteq> [])"

fun type_name :: "json \<Rightarrow> string" where
  "type_name JNull = ''NoneType''"
| "type_name (JBool b) = ''bool''"
| "type_name (JInt i) = ''int''"
| "type_name (JStr s) = ''str''"
| "type_name (JList xs) = ''list''"
| "type_name (JObj kvs) = ''dict''"

text \<open>Lists and dictionaries cannot be keys of a dictionary or members of a set.\<close>

fun hashable :: "json \<Rightarrow> bool" where
  "hashable (JList xs) = False"
| "hashable (JObj kvs) = False"
| "hashable v = True"

definition unhashable :: "json \<Rightarrow> exn" where
  "unhashable v = TypeError (''unhashable type: '' @ [CHR 0x27] @ type_name v @ [CHR 0x27])"

text \<open>\<^verbatim>\<open>d.get(k)\<close>, \<^verbatim>\<open>d.get(k, default)\<close> and \<^verbatim>\<open>d[k]\<close> for a string key.\<close>

definition dict_get :: "dict \<Rightarrow> string \<Rightarrow> json" where
  "dict_get d k = (case map_of d k of None \<Rightarrow> JNull | Some v \<Rightarrow> v)"

definition dict_get_default :: "dict \<Rightarrow> string \<Rightarrow> json \<Rightarrow> json" where
  "dict_get_default d k dflt = (case map_of d k of None \<Rightarrow> dflt | Some v \<Rightarrow> v)"

subsection \<open>Text of a value\<close>

definition digit_char :: "nat \<Rightarrow> char" where
  "digit_char n = char_of (48 + n)"

function string_of_nat :: "nat \<Rightarrow> string" where
  "string_of_nat n =
     (if n < 10 then [digit_char n] else string_of_nat (n div 10) @ [digit_char (n mod 10)])"
  by pat_completeness auto
termination
  by (relation "measure (\<lambda>n. n)") auto

definition string_of_int :: "int \<Rightarrow> string" where
  "string_of_int i = (if i < 0 then CHR ''-'' # string_of_nat (nat (- i)) else string_of_nat (nat i))"

definition hex_digit :: "nat \<Rightarrow> char" where
  "hex_digit n = (if n < 10 then char_of (48 + n) else char_of (87 + n))"

definition escape_char :: "char \<Rightarrow> char \<Rightarrow> string" where
  "escape_char q c =
     (if c = q \<or> c = CHR 0x5C then [CHR 0x5C, c]
      else if c = CHR 0x09 then [CHR 0x5C, CHR ''t'']
      else if c = CHR 0x0A then [CHR 0x5C, CHR ''n'']
      else if c = CHR 0x0D then [CHR 0x5C, CHR ''r'']
      else if (of_char c :: nat) < 32 \<or> (of_char c :: nat) = 127
              \<or> (128 \<le> (of_char c :: nat) \<and> (of_char c :: nat) \<le> 160) \<or> (of_char c :: nat) = 173
        then [CHR 0x5C, CHR ''x'', hex_digit (of_char c div 16), hex_digit (of_char c mod 16)]
      else [c])"

text \<open>\<^verbatim>\<open>repr\<close> of a string: single quotes, unless the string holds one and no double quote.\<close>

definition repr_str :: "string \<Rightarrow> string" where
  "repr_str s =
     (let q = (if CHR 0x27 \<in> set s \<and> CHR 0x22 \<notin> set s then CHR 0x22 else CHR 0x27)
      in [q] @ concat (map (escape_char q) s) @ [q])"

fun join :: "string \<Rightarrow> string list \<Rightarrow> string" where
  "join sep [] = []"
| "join sep [x] = x"
| "join sep (x # y # ys) = x @ sep @ join sep (y # ys)"

fun py_repr :: "json \<Rightarrow> string"
  and py_repr_list :: "json list \<Rightarrow> string list"
  and py_repr_items :: "(string \<times> json) list \<Rightarrow> string list" where
  "py_repr JNull = ''None''"
| "py_repr (JBool b) = (if b then ''True'' else ''False'')"
| "py_repr (JInt i) = string_of_int i"
| "py_repr (JStr s) = repr_str s"
| "py_repr (JList xs) = ''['' @ join '', '' (py_repr_list xs) @ '']''"
| "py_repr (JObj kvs) = ''{'' @ join '', '' (py_repr_items kvs) @ ''}''"
| "py_repr_list [] = []"
| "py_repr_list (x # xs) = py_repr x # py_repr_list xs"
| "py_repr_items [] = []"
| "py_repr_items (kv # kvs) = (repr_str (fst kv) @ '': '' @ py_repr (snd kv)) # py_repr_items kvs"

text \<open>\<^verbatim>\<open>str(v)\<close>, which is what an f-string inserts.\<close>

fun py_str :: "json \<Rightarrow> string" where
  "py_str (JStr s) = s"
| "py_str v = py_repr v"

text \<open>\<^verbatim>\<open>str(e)\<close> of an exception. A \<open>KeyError\<close> shows the \<^verbatim>\<open>repr\<close> of its key.\<close>

fun str_exn :: "exn \<Rightarrow> string" where
  "str_exn (TypeError m) = m"
| "str_exn (ValueError m) = m"
| "str_exn (KeyError k) = repr_str k"
| "str_exn (AttributeError m) = m"
| "str_exn (OverflowError m) = m"
| "str_exn (ValidationError m) = m"
| "str_exn (SceneDefinitionError m) = m"
| "str_exn (SceneExecutionError sid reason) =
     ''Scene execution failed: '' @ sid @ '', reason: '' @ reason"
| "str_exn (HALCommunicationError m) = m"
| "str_exn (JobLookupError m) = m"
| "str_exn (OtherException m) = m"

subsection \<open>Comparison\<close>

text \<open>
  \<^verbatim>\<open>a == b\<close>: a truth value counts as the number 0 or 1, lists are compared item by item,
  dictionaries by their keys and the values under them, and values of different kinds
  are unequal. It never raises.
\<close>

fun as_number :: "json \<Rightarrow> int option" where
  "as_number (JBool b) = Some (if b then 1 else 0)"
| "as_number (JInt i) = Some i"
| "as_number v = None"

fun py_eq :: "json \<Rightarrow> json \<Rightarrow> bool"
  and py_eq_list :: "json list \<Rightarrow> json list \<Rightarrow> bool"
  and py_eq_items :: "(string \<times> json) list \<Rightarrow> (string \<times> json) list \<Rightarrow> bool" where
  "py_eq JNull w = (w = JNull)"
| "py_eq (JBool b) w = (as_number w = Some (if b then 1 else 0))"
| "py_eq (JInt i) w = (as_number w = Some i)"
| "py_eq (JStr s) w = (w = JStr s)"
| "py_eq (JList xs) w = (case w of JList ys \<Rightarrow> py_eq_list xs ys | _ \<Rightarrow> False)"
| "py_eq (JObj kvs) w =
     (case w of JObj kws \<Rightarrow> set (map fst kvs) = set (map fst kws) \<and> py_eq_items kvs kws
      | _ \<Rightarrow> False)"
| "py_eq_list [] ys = (ys = [])"
| "py_eq_list (x # xs) ys = (case ys of [] \<Rightarrow> False | y # ys' \<Rightarrow> py_eq x y \<and> py_eq_list xs ys')"
| "py_eq_items [] kws = True"
| "py_eq_items (kv # kvs) kws =
     ((case map_of kws (fst kv) of None \<Rightarrow> False | Some w \<Rightarrow> py_eq (snd kv) w)
      \<and> py_eq_items kvs kws)"

text \<open>
  The ordering comparisons raise \<open>TypeError\<close> unless both sides are numbers, both are
  strings, or both are lists (which are ordered by their first differing items).
\<close>

datatype cmpop = Lt | Le | Gt | Ge

fun op_symbol :: "cmpop \<Rightarrow> string" where
  "op_symbol Lt = ''<''"
| "op_symbol Le = ''<=''"
| "op_symbol Gt = ''>''"
| "op_symbol Ge = ''>=''"

fun op_int :: "cmpop \<Rightarrow> int \<Rightarrow> int \<Rightarrow> bool" where
  "op_int Lt a b = (a < b)"
| "op_int Le a b = (a \<le> b)"
| "op_int Gt a b = (a > b)"
| "op_int Ge a b = (a \<ge> b)"

text \<open>Strings are ordered by their characters' codes, a proper prefix first.\<close>

fun str_cmp :: "string \<Rightarrow> string \<Rightarrow> int" where
  "str_cmp [] [] = 0"
| "str_cmp [] (d # ds) = - 1"
| "str_cmp (c # cs) [] = 1"
| "str_cmp (c # cs) (d # ds) =
     (if (of_char c :: nat) < of_char d then - 1
      else if (of_char c :: nat) > of_char d then 1
      else str_cmp cs ds)"

definition not_supported :: "cmpop \<Rightarrow> json \<Rightarrow> json \<Rightarrow> exn" where
  "not_supported cop a b =
     TypeError ([CHR 0x27] @ op_symbol cop @ [CHR 0x27] @ '' not supported between instances of ''
       @ [CHR 0x27] @ type_name a @ [CHR 0x27] @ '' and '' @ [CHR 0x27] @ type_name b @ [CHR 0x27])"

fun py_cmp :: "cmpop \<Rightarrow> json \<Rightarrow> json \<Rightarrow> exn + bool"
  and py_cmp_list :: "cmpop \<Rightarrow> json list \<Rightarrow> json list \<Rightarrow> exn + bool" where
  "py_cmp cop (JBool b) w =
     (case as_number w of Some j \<Rightarrow> Inr (op_int cop (if b then 1 else 0) j)
      | None \<Rightarrow> Inl (not_supported cop (JBool b) w))"
| "py_cmp cop (JInt i) w =
     (case as_number w of Some j \<Rightarrow> Inr (op_int cop i j)
      | None \<Rightarrow> Inl (not_supported cop (JInt i) w))"
| "py_cmp cop (JStr s) w =
     (case w of JStr t \<Rightarrow> Inr (op_int cop (str_cmp s t) 0)
      | _ \<Rightarrow> Inl (not_supported cop (JStr s) w))"
| "py_cmp cop (JList xs) w =
     (case w of JList ys \<Rightarrow> py_cmp_list cop xs ys
      | _ \<Rightarrow> Inl (not_supported cop (JList xs) w))"
| "py_cmp cop JNull w = Inl (not_supported cop JNull w)"
| "py_cmp cop (JObj kvs) w = Inl (not_supported cop (JObj kvs) w)"
| "py_cmp_list cop [] ys = Inr (op_int cop 0 (int (length ys)))"
| "py_cmp_list cop (x # xs) ys =
     (case ys of [] \<Rightarrow> Inr (op_int cop 1 0)
      | y # ys' \<Rightarrow> if py_eq x y then py_cmp_list cop xs ys' else py_cmp cop x y)"

subsection \<open>Strings\<close>

text \<open>\<^verbatim>\<open>s.lower()\<close> and \<^verbatim>\<open>s.split()\<close> (split at runs of white space).\<close>

definition lower_char :: "char \<Rightarrow> char" where
  "lower_char c =
     (if 65 \<le> (of_char c :: nat) \<and> (of_char c :: nat) \<le> 90
         \<or> 192 \<le> (of_char c :: nat) \<and> (of_char c :: nat) \<le> 222 \<and> (of_char c :: nat) \<noteq> 215
      then char_of (of_char c + 32 :: nat)
      else c)"

definition lower :: "string \<Rightarrow> string" where
  "lower s = map lower_char s"

definition is_space :: "char \<Rightarrow> bool" where
  "is_space c = ((of_char c :: nat) \<in> {9, 10, 11, 12, 13, 28, 29, 30, 31, 32, 133, 160})"

fun split_acc :: "string \<Rightarrow> string \<Rightarrow> string list" where
  "split_acc cur [] = (if cur = [] then [] else [cur])"
| "split_acc cur (c # cs) =
     (if is_space c then (if cur = [] then split_acc [] cs else cur # split_acc [] cs)
      else split_acc (cur @ [c]) cs)"

definition split :: "string \<Rightarrow> string list" where
  "split s = split_acc [] s"

subsection \<open>Clock of day\<close>

text \<open>
  A time of day is (hour, minute, second, microsecond); two of them are compared field
  by field, the hour first.
\<close>

type_synonym pytime = "nat \<times> nat \<times> nat \<times> nat"

fun time_lt :: "pytime \<Rightarrow> pytime \<Rightarrow> bool" where
  "time_lt (h1, m1, s1, u1) (h2, m2, s2, u2) =
     (h1 < h2 \<or> h1 = h2 \<and> (m1 < m2 \<or> m1 = m2 \<and> (s1 < s2 \<or> s1 = s2 \<and> u1 < u2)))"

definition time_le :: "pytime \<Rightarrow> pytime \<Rightarrow> bool" where
  "time_le a b = (a = b \<or> time_lt a b)"

definition time_ge :: "pytime \<Rightarrow> pytime \<Rightarrow> bool" where
  "time_ge a b = time_le b a"

text \<open>
  \<^verbatim>\<open>datetime.strptime(s, "%H:%M").time()\<close>. The hour is \<^verbatim>\<open>2[0-3]|[0-1]\d|\d\<close>, the
  minute \<^verbatim>\<open>[0-5]\d|\d\<close>, the alternatives are tried in this order, and text left over
  after the first match is an error.
\<close>

definition is_digit :: "char \<Rightarrow> bool" where
  "is_digit c = (48 \<le> (of_char c :: nat) \<and> (of_char c :: nat) \<le> 57)"

definition digit_val :: "char \<Rightarrow> nat" where
  "digit_val c = of_char c - 48"

fun hour_candidates :: "string \<Rightarrow> (nat \<times> string) list" where
  "hour_candidates (a # b # r) =
     (if is_digit a \<and> is_digit b \<and> (digit_val a < 2 \<or> digit_val a = 2 \<and> digit_val b \<le> 3)
      then [(10 * digit_val a + digit_val b, r)] else [])
     @ (if is_digit a then [(digit_val a, b # r)] else [])"
| "hour_candidates [a] = (if is_digit a then [(digit_val a, [])] else [])"
| "hour_candidates [] = []"

fun minute_candidates :: "string \<Rightarrow> (nat \<times> string) list" where
  "minute_candidates (a # b # r) =
     (if is_digit a \<and> is_digit b \<and> digit_val a \<le> 5
      then [(10 * digit_val a + digit_val b, r)] else [])
     @ (if is_digit a then [(digit_val a, b # r)] else [])"
| "minute_candidates [a] = (if is_digit a then [(digit_val a, [])] else [])"
| "minute_candidates [] = []"

fun match_hm :: "(nat \<times> string) list \<Rightarrow> (nat \<times> nat \<times> string) option" where
  "match_hm [] = None"
| "match_hm ((h, r) # cands) =
     (case r of
        c # r' \<Rightarrow>
          (if c = CHR '':'' then
             (case minute_candidates r' of (m, rest) # _ \<Rightarrow> Some (h, m, rest)
              | [] \<Rightarrow> match_hm cands)
           else match_hm cands)
      | [] \<Rightarrow> match_hm cands)"

definition strptime_HM :: "json \<Rightarrow> exn + pytime" where
  "strptime_HM v =
     (case v of
        JStr s \<Rightarrow>
          (case match_hm (hour_candidates s) of
             None \<Rightarrow> Inl (ValueError (''time data '' @ repr_str s @ '' does not match format ''
                          @ repr_str ''%H:%M''))
           | Some (h, m, rest) \<Rightarrow>
               if rest = [] then Inr (h, m, 0, 0)
               else Inl (ValueError (''unconverted data remains: '' @ rest)))
      | JNull \<Rightarrow> Inl (TypeError ''strptime() argument 1 must be str, not None'')
      | _ \<Rightarrow> Inl (TypeError (''strptime() argument 1 must be str, not '' @ type_name v)))"

section \<open>Entities\<close>

text \<open>\<^verbatim>\<open>domain/entities/device.py\<close> and \<^verbatim>\<open>domain/entities/scene.py\<close>.\<close>

record device_state =
  state :: string
  attributes :: dict
  last_updated :: nat

record condition_group =
  operator :: string
  items :: "dict list"

record scene_definition =
  triggers :: "dict list"
  conditions :: "condition_group option"
  actions :: "dict list"

record scene =
  s_id :: string
  s_name :: string
  s_description :: "string option"
  s_definition :: scene_definition
  s_is_active :: bool

text \<open>\<^verbatim>\<open>model_dump()\<close> of a condition group: the dictionary of its two fields.\<close>

definition model_dump :: "condition_group \<Rightarrow> dict" where
  "model_dump g = [(''operator'', JStr (operator g)), (''items'', JList (map JObj (items g)))]"

section \<open>Condition evaluation\<close>

text \<open>
  \<^verbatim>\<open>domain/scene_engine/conditions.py\<close>. The evaluation context is the dictionary the
  executor builds; a context without the key \<^verbatim>\<open>device_states\<close> behaves as one whose
  \<open>device_states\<close> is empty. The clock of day is read once per evaluation and is the
  argument \<open>now\<close>.
\<close>

record eval_context =
  device_states :: "(string \<times> device_state) list"
  scene_id :: string
  current_time :: nat

text \<open>The condition objects the factory's registry can build.\<close>

datatype condition =
    DeviceStateCondition json json json json
  | TimeRangeCondition pytime pytime

text \<open>The condition group object: its lower-cased operator and its items.\<close>

datatype group = ConditionGroup string json

definition no_attribute :: "json \<Rightarrow> string \<Rightarrow> exn" where
  "no_attribute v a =
     AttributeError ([CHR 0x27] @ type_name v @ [CHR 0x27] @ '' object has no attribute ''
       @ [CHR 0x27] @ a @ [CHR 0x27])"

definition DeviceStateCondition_init :: "json \<Rightarrow> json \<Rightarrow> exn + condition" where
  "DeviceStateCondition_init device_id cond =
     (case cond of
        JObj c \<Rightarrow>
          Inr (DeviceStateCondition device_id
                 (dict_get_default c ''operator'' (JStr ''eq''))
                 (dict_get_default c ''attribute'' (JStr ''state''))
                 (dict_get c ''value''))
      | _ \<Rightarrow> Inl (no_attribute cond ''get''))"

definition compare :: "json \<Rightarrow> json \<Rightarrow> json \<Rightarrow> exn + bool" where
  "compare actual expected opr =
     (if opr = JStr ''eq'' then Inr (py_eq actual expected)
      else if opr = JStr ''ne'' then Inr (\<not> py_eq actual expected)
      else if opr = JStr ''gt'' then py_cmp Gt actual expected
      else if opr = JStr ''ge'' then py_cmp Ge actual expected
      else if opr = JStr ''lt'' then py_cmp Lt actual expected
      else if opr = JStr ''le'' then py_cmp Le actual expected
      else Inr False)"

text \<open>\<^verbatim>\<open>d.get(k)\<close> for a key of any kind, in a dictionary whose keys are strings.\<close>

definition get_any :: "(string \<times> 'a) list \<Rightarrow> json \<Rightarrow> exn + 'a option" where
  "get_any d k =
     (if \<not> hashable k then Inl (unhashable k)
      else case k of JStr s \<Rightarrow> Inr (map_of d s) | _ \<Rightarrow> Inr None)"

definition DeviceStateCondition_evaluate ::
    "json \<Rightarrow> json \<Rightarrow> json \<Rightarrow> json \<Rightarrow> eval_context \<Rightarrow> exn + bool" where
  "DeviceStateCondition_evaluate device_id opr attribute val ctx =
     (case get_any (device_states ctx) device_id of
        Inl e \<Rightarrow> Inl e
      | Inr None \<Rightarrow> Inr False
      | Inr (Some ds) \<Rightarrow>
          (case (if attribute = JStr ''state'' then Inr (Some (JStr (state ds)))
                 else get_any (attributes ds) attribute) of
             Inl e \<Rightarrow> Inl e
           | Inr None \<Rightarrow> Inr False
           | Inr (Some actual_value) \<Rightarrow>
               if actual_value = JNull then Inr False
               else compare actual_value val opr))"

definition TimeRangeCondition_init :: "json \<Rightarrow> json \<Rightarrow> exn + condition" where
  "TimeRangeCondition_init start end' =
     (case strptime_HM start of
        Inl e \<Rightarrow> Inl e
      | Inr s \<Rightarrow> (case strptime_HM end' of Inl e \<Rightarrow> Inl e | Inr e \<Rightarrow> Inr (TimeRangeCondition s e)))"

definition TimeRangeCondition_evaluate :: "pytime \<Rightarrow> pytime \<Rightarrow> pytime \<Rightarrow> bool" where
  "TimeRangeCondition_evaluate start end' now =
     (if time_le start end' then time_le start now \<and> time_le now end'
      else time_ge now start \<or> time_le now end')"

text \<open>\<^verbatim>\<open>condition.evaluate(context)\<close>, dispatched on the object's class.\<close>

fun evaluate :: "condition \<Rightarrow> eval_context \<Rightarrow> pytime \<Rightarrow> exn + bool" where
  "evaluate (DeviceStateCondition device_id opr attribute val) ctx now =
     DeviceStateCondition_evaluate device_id opr attribute val ctx"
| "evaluate (TimeRangeCondition start end') ctx now =
     Inr (TimeRangeCondition_evaluate start end' now)"

text \<open>
  \<^verbatim>\<open>ConditionFactory.create\<close>. The registry holds \<^verbatim>\<open>device_state\<close> and
  \<^verbatim>\<open>time_range\<close>; nothing in the repository registers another class.
\<close>

definition registry :: "string list" where
  "registry = [''device_state'', ''time_range'']"

definition create :: "json \<Rightarrow> exn + condition" where
  "create condition_data =
     (case condition_data of
        JObj d \<Rightarrow>
          (let cond_type = dict_get d ''type'' in
           if \<not> hashable cond_type then Inl (unhashable cond_type)
           else if cond_type \<notin> set (map JStr registry)
             then Inl (ValueError (''Unknown condition type: '' @ py_str cond_type))
           else if cond_type = JStr ''device_state'' then
             (case map_of d ''device_id'' of
                None \<Rightarrow> Inl (KeyError ''device_id'')
              | Some device_id \<Rightarrow>
                  (case map_of d ''condition'' of
                     None \<Rightarrow> Inl (KeyError ''condition'')
                   | Some c \<Rightarrow> DeviceStateCondition_init device_id c))
           else if cond_type = JStr ''time_range'' then
             (case map_of d ''start'' of
                None \<Rightarrow> Inl (KeyError ''start'')
              | Some start \<Rightarrow>
                  (case map_of d ''end'' of
                     None \<Rightarrow> Inl (KeyError ''end'')
                   | Some end' \<Rightarrow> TimeRangeCondition_init start end'))
           else Inl (ValueError (''Cannot create condition for type: '' @ py_str cond_type)))
      | _ \<Rightarrow> Inl (no_attribute condition_data ''get''))"

definition ConditionGroup_init :: "json \<Rightarrow> json \<Rightarrow> exn + group" where
  "ConditionGroup_init opr its =
     (case opr of
        JStr s \<Rightarrow> Inr (ConditionGroup (lower s) its)
      | _ \<Rightarrow> Inl (no_attribute opr ''lower''))"

text \<open>What a \<^verbatim>\<open>for\<close> loop over a value iterates.\<close>

definition py_iter :: "json \<Rightarrow> exn + json list" where
  "py_iter v =
     (case v of
        JList xs \<Rightarrow> Inr xs
      | JStr s \<Rightarrow> Inr (map (\<lambda>c. JStr [c]) s)
      | JObj kvs \<Rightarrow> Inr (map (\<lambda>kv. JStr (fst kv)) kvs)
      | _ \<Rightarrow> Inl (TypeError ([CHR 0x27] @ type_name v @ [CHR 0x27] @ '' object is not iterable'')))"

text \<open>
  The loop of \<^verbatim>\<open>ConditionGroup.evaluate\<close>: every item is built by the factory and
  evaluated (\<open>evaluate_item\<close> is the loop's body), in order; the first exception ends
  the loop.
\<close>

definition evaluate_item :: "json \<Rightarrow> eval_context \<Rightarrow> pytime \<Rightarrow> exn + bool" where
  "evaluate_item cond_data ctx now =
     (case create cond_data of
        Inl e \<Rightarrow> Inl e
      | Inr c \<Rightarrow> evaluate c ctx now)"

fun evaluate_items :: "json list \<Rightarrow> eval_context \<Rightarrow> pytime \<Rightarrow> exn + bool list" where
  "evaluate_items [] ctx now = Inr []"
| "evaluate_items (cond_data # rest) ctx now =
     (case evaluate_item cond_data ctx now of
        Inl e \<Rightarrow> Inl e
      | Inr result \<Rightarrow>
          (case evaluate_items rest ctx now of
             Inl e \<Rightarrow> Inl e
           | Inr results \<Rightarrow> Inr (result # results)))"

fun ConditionGroup_evaluate :: "group \<Rightarrow> eval_context \<Rightarrow> pytime \<Rightarrow> exn + bool" where
  "ConditionGroup_evaluate (ConditionGroup opr its) ctx now =
     (case py_iter its of
        Inl e \<Rightarrow> Inl e
      | Inr cs \<Rightarrow>
          (case evaluate_items cs ctx now of
             Inl e \<Rightarrow> Inl e
           | Inr results \<Rightarrow>
               if opr = ''and'' then Inr (list_all (\<lambda>r. r) results)
               else if opr = ''or'' then Inr (list_ex (\<lambda>r. r) results)
               else Inr False))"

text \<open>\<^verbatim>\<open>ConditionEvaluator.evaluate\<close>.\<close>

definition ConditionEvaluator_evaluate :: "dict option \<Rightarrow> eval_context \<Rightarrow> pytime \<Rightarrow> exn + bool" where
  "ConditionEvaluator_evaluate condition_data ctx now =
     (case condition_data of
        None \<Rightarrow> Inr True
      | Some d \<Rightarrow>
          if d = [] then Inr True
          else if map_of d ''operator'' \<noteq> None \<and> map_of d ''items'' \<noteq> None then
            (case ConditionGroup_init (dict_get d ''operator'') (dict_get d ''items'') of
               Inl e \<Rightarrow> Inl e
             | Inr g \<Rightarrow> ConditionGroup_evaluate g ctx now)
          else
            (case create (JObj d) of
               Inl e \<Rightarrow> Inl e
             | Inr c \<Rightarrow> evaluate c ctx now))"

section \<open>Scene execution\<close>

text \<open>
  \<^verbatim>\<open>domain/scene_engine/executor.py\<close>. The world the executor acts on is the state
  manager's store and the record of what was done to the outside: the calls made to the
  device backend and the delays taken. The backend's answer to a call may depend on
  everything done before it; \<open>None\<close> is a call that returns, \<open>Some e\<close> one that raises.
\<close>

datatype effect = ControlDevice json json | Slept json

record world =
  store :: "(string \<times> device_state) list"
  effects :: "effect list"

record environment =
  hal :: "effect list \<Rightarrow> json \<Rightarrow> json \<Rightarrow> exn option"
  time_of_day :: pytime
  timestamp :: nat

record execution_result =
  status :: string
  result_scene_id :: string
  message :: "string option"

text \<open>\<^verbatim>\<open>StateManager.get_state\<close> reads the store under its lock and leaves it as it is.\<close>

definition get_state :: "(string \<times> device_state) list \<Rightarrow> json \<Rightarrow> exn + device_state option" where
  "get_state st device_id = get_any st device_id"

text \<open>Adding to a set: nothing happens if an equal member is there.\<close>

definition set_add :: "json list \<Rightarrow> json \<Rightarrow> exn + json list" where
  "set_add acc v =
     (if \<not> hashable v then Inl (unhashable v)
      else if list_ex (\<lambda>x. py_eq x v) acc then Inr acc
      else Inr (acc @ [v]))"

text \<open>
  One loop of \<^verbatim>\<open>_extract_device_ids\<close>: the device ids of the entries whose type is
  \<open>tag\<close>.
\<close>

fun collect_device_ids :: "string \<Rightarrow> dict list \<Rightarrow> json list \<Rightarrow> exn + json list" where
  "collect_device_ids tag [] acc = Inr acc"
| "collect_device_ids tag (d # ds) acc =
     (if dict_get d ''type'' = JStr tag then
        (case map_of d ''device_id'' of
           None \<Rightarrow> Inl (KeyError ''device_id'')
         | Some v \<Rightarrow>
             (case set_add acc v of
                Inl e \<Rightarrow> Inl e
              | Inr acc' \<Rightarrow> collect_device_ids tag ds acc'))
      else collect_device_ids tag ds acc)"

definition extract_device_ids :: "scene \<Rightarrow> exn + json list" where
  "extract_device_ids sc =
     (case collect_device_ids ''device_state'' (triggers (s_definition sc)) [] of
        Inl e \<Rightarrow> Inl e
      | Inr ids1 \<Rightarrow>
          (case (case conditions (s_definition sc) of
                   None \<Rightarrow> Inr ids1
                 | Some g \<Rightarrow> collect_device_ids ''device_state'' (items g) ids1) of
             Inl e \<Rightarrow> Inl e
           | Inr ids2 \<Rightarrow> collect_device_ids ''device_control'' (actions (s_definition sc)) ids2))"

fun read_states ::
    "(string \<times> device_state) list \<Rightarrow> json list \<Rightarrow> exn + (string \<times> device_state) list" where
  "read_states st [] = Inr []"
| "read_states st (device_id # ids) =
     (case get_state st device_id of
        Inl e \<Rightarrow> Inl e
      | Inr r \<Rightarrow>
          (case read_states st ids of
             Inl e \<Rightarrow> Inl e
           | Inr found \<Rightarrow>
               (case (device_id, r) of
                  (JStr d, Some ds) \<Rightarrow> Inr ((d, ds) # found)
                | _ \<Rightarrow> Inr found)))"

definition prepare_context :: "environment \<Rightarrow> world \<Rightarrow> scene \<Rightarrow> exn + eval_context" where
  "prepare_context env w sc =
     (case extract_device_ids sc of
        Inl e \<Rightarrow> Inl e
      | Inr device_ids \<Rightarrow>
          (case read_states (store w) device_ids of
             Inl e \<Rightarrow> Inl e
           | Inr found \<Rightarrow>
               Inr \<lparr>device_states = found, scene_id = s_id sc, current_time = timestamp env\<rparr>))"

definition execute_device_control ::
    "environment \<Rightarrow> effect list \<Rightarrow> dict \<Rightarrow> exn option \<times> effect list" where
  "execute_device_control env tr action =
     (case map_of action ''device_id'' of
        None \<Rightarrow> (Some (KeyError ''device_id''), tr)
      | Some device_id \<Rightarrow>
          (case map_of action ''command'' of
             None \<Rightarrow> (Some (KeyError ''command''), tr)
           | Some command \<Rightarrow>
               (case hal env tr device_id command of
                  None \<Rightarrow> (None, tr @ [ControlDevice device_id command])
                | Some e \<Rightarrow>
                    (Some (SceneExecutionError ''device_control''
                             (''Failed to control device '' @ py_str device_id @ '': '' @ str_exn e)),
                     tr @ [ControlDevice device_id command]))))"

text \<open>
  \<^verbatim>\<open>asyncio.sleep(seconds)\<close> returns at once for a delay of zero or less and raises
  \<open>TypeError\<close> for a value that is not a number. A longer delay is added to the event
  loop's clock, a floating point number, and that raises \<open>OverflowError\<close> for an integer
  that rounds to more than the largest such number, which is \<open>2 ^ 1024 - 2 ^ 971\<close>.
\<close>

definition float_overflow :: "json \<Rightarrow> bool" where
  "float_overflow v =
     (case as_number v of Some n \<Rightarrow> n \<ge> 2 ^ 1024 - 2 ^ 970 | None \<Rightarrow> False)"

definition execute_delay :: "effect list \<Rightarrow> dict \<Rightarrow> exn option \<times> effect list" where
  "execute_delay tr action =
     (let seconds = dict_get_default action ''seconds'' (JInt 0) in
      case py_cmp Le seconds (JInt 0) of
        Inl e \<Rightarrow> (Some e, tr)
      | Inr True \<Rightarrow> (None, tr)
      | Inr False \<Rightarrow>
          if float_overflow seconds
          then (Some (OverflowError ''int too large to convert to float''), tr)
          else (None, tr @ [Slept seconds]))"

definition execute_action :: "environment \<Rightarrow> effect list \<Rightarrow> dict \<Rightarrow> exn option \<times> effect list" where
  "execute_action env tr action =
     (let action_type = dict_get action ''type'' in
      if action_type = JStr ''device_control'' then execute_device_control env tr action
      else if action_type = JStr ''delay'' then execute_delay tr action
      else (Some (SceneExecutionError ''unknown''
                    (''Unknown action type: '' @ py_str action_type)), tr))"

fun execute_actions :: "environment \<Rightarrow> effect list \<Rightarrow> dict list \<Rightarrow> exn option \<times> effect list" where
  "execute_actions env tr [] = (None, tr)"
| "execute_actions env tr (action # rest) =
     (case execute_action env tr action of
        (Some e, tr') \<Rightarrow> (Some e, tr')
      | (None, tr') \<Rightarrow> execute_actions env tr' rest)"

text \<open>
  The evaluator's first argument in \<^verbatim>\<open>execute_scene\<close>: the dumped condition group, or
  \<^verbatim>\<open>None\<close> for a definition without conditions.
\<close>

definition dumped_conditions :: "scene \<Rightarrow> dict option" where
  "dumped_conditions sc =
     (case conditions (s_definition sc) of None \<Rightarrow> None | Some g \<Rightarrow> Some (model_dump g))"

definition execute_scene ::
    "environment \<Rightarrow> world \<Rightarrow> scene \<Rightarrow> string \<Rightarrow> execution_result \<times> world" where
  "execute_scene env w sc triggered_by =
     (case prepare_context env w sc of
        Inl e \<Rightarrow>
          (\<lparr>status = ''failed'', result_scene_id = s_id sc, message = Some (str_exn e)\<rparr>, w)
      | Inr ctx \<Rightarrow>
          (case ConditionEvaluator_evaluate (dumped_conditions sc) ctx (time_of_day env) of
             Inl e \<Rightarrow>
               (\<lparr>status = ''failed'', result_scene_id = s_id sc, message = Some (str_exn e)\<rparr>, w)
           | Inr condition_met \<Rightarrow>
               if \<not> condition_met then
                 (\<lparr>status = ''skipped'', result_scene_id = s_id sc,
                   message = Some ''Conditions not met''\<rparr>, w)
               else
                 (case execute_actions env (effects w) (actions (s_definition sc)) of
                    (Some e, tr) \<Rightarrow>
                      (\<lparr>status = ''failed'', result_scene_id = s_id sc,
                        message = Some (str_exn e)\<rparr>, w\<lparr>effects := tr\<rparr>)
                  | (None, tr) \<Rightarrow>
                      (\<lparr>status = ''success'', result_scene_id = s_id sc,
                        message = Some (''Executed ''
                          @ string_of_nat (length (actions (s_definition sc))) @ '' actions'')\<rparr>,
                       w\<lparr>effects := tr\<rparr>))))"

section \<open>Scheduling\<close>

text \<open>
  \<^verbatim>\<open>domain/scene_engine/scheduler.py\<close>. The scheduling library keeps the jobs of a
  running scheduler in a job store, one job per job id, and the jobs added to a stopped
  scheduler in a list of pending jobs that \<^verbatim>\<open>start\<close> moves into the store. A job is
  its id, the five fields of its cron trigger, the callback and the scene it is called
  with. Whether the library accepts five fields as a cron trigger is the argument
  \<open>accepts\<close>.
\<close>

record 'cb job =
  job_id :: string
  cron_fields :: "string list"
  callback :: 'cb
  job_scene :: scene

record 'cb scheduler =
  running :: bool
  pending :: "'cb job list"
  jobstore :: "'cb job list"
  job_map :: "(string \<times> string) list"

text \<open>Adding a job with \<^verbatim>\<open>replace_existing=True\<close> to the store.\<close>

definition real_add_job :: "'cb job \<Rightarrow> 'cb job list \<Rightarrow> 'cb job list" where
  "real_add_job j js =
     (if job_id j \<in> set (map job_id js)
      then map (\<lambda>k. if job_id k = job_id j then j else k) js
      else js @ [j])"

definition add_job :: "'cb job \<Rightarrow> 'cb scheduler \<Rightarrow> 'cb scheduler" where
  "add_job j sch =
     (if running sch then sch\<lparr>jobstore := real_add_job j (jobstore sch)\<rparr>
      else sch\<lparr>pending := pending sch @ [j]\<rparr>)"

fun remove_first :: "string \<Rightarrow> 'cb job list \<Rightarrow> 'cb job list" where
  "remove_first i [] = []"
| "remove_first i (j # js) = (if job_id j = i then js else j # remove_first i js)"

text \<open>
  Removing a job: from the store of a running scheduler, or the first pending job of
  that id of a stopped one; \<open>JobLookupError\<close> if there is none.
\<close>

definition remove_job :: "string \<Rightarrow> 'cb scheduler \<Rightarrow> exn + 'cb scheduler" where
  "remove_job i sch =
     (if running sch then
        (if i \<in> set (map job_id (jobstore sch))
         then Inr (sch\<lparr>jobstore := filter (\<lambda>j. job_id j \<noteq> i) (jobstore sch)\<rparr>)
         else Inl (JobLookupError i))
      else
        (if i \<in> set (map job_id (pending sch))
         then Inr (sch\<lparr>pending := remove_first i (pending sch)\<rparr>)
         else Inl (JobLookupError i)))"

definition start :: "'cb scheduler \<Rightarrow> 'cb scheduler" where
  "start sch =
     (if \<not> running sch
      then sch\<lparr>running := True, pending := [],
               jobstore := foldl (\<lambda>js j. real_add_job j js) (jobstore sch) (pending sch)\<rparr>
      else sch)"

definition dict_set :: "(string \<times> 'a) list \<Rightarrow> string \<Rightarrow> 'a \<Rightarrow> (string \<times> 'a) list" where
  "dict_set d k v =
     (if k \<in> set (map fst d) then map (\<lambda>kv. if fst kv = k then (k, v) else kv) d
      else d @ [(k, v)])"

definition dict_del :: "(string \<times> 'a) list \<Rightarrow> string \<Rightarrow> (string \<times> 'a) list" where
  "dict_del d k = filter (\<lambda>kv. fst kv \<noteq> k) d"

definition add_cron_job ::
    "(string list \<Rightarrow> bool) \<Rightarrow> string \<Rightarrow> json \<Rightarrow> 'cb \<Rightarrow> scene \<Rightarrow> 'cb scheduler \<Rightarrow> 'cb scheduler" where
  "add_cron_job accepts sid cron_expr cb sc sch =
     (case cron_expr of
        JStr s \<Rightarrow>
          (let parts = split s in
           if length parts \<noteq> 5 then sch
           else if \<not> accepts parts then sch
           else
             (let j = \<lparr>job_id = ''scene_'' @ sid, cron_fields = parts, callback = cb,
                       job_scene = sc\<rparr>;
                  sch' = add_job j sch
              in sch'\<lparr>job_map := dict_set (job_map sch') sid (job_id j)\<rparr>))
      | _ \<Rightarrow> sch)"

definition unregister_scene :: "string \<Rightarrow> 'cb scheduler \<Rightarrow> 'cb scheduler" where
  "unregister_scene sid sch =
     (case map_of (job_map sch) sid of
        None \<Rightarrow> sch
      | Some i \<Rightarrow>
          if i = [] then sch
          else (case remove_job i sch of
                  Inl e \<Rightarrow> sch
                | Inr sch' \<Rightarrow> sch'\<lparr>job_map := dict_del (job_map sch') sid\<rparr>))"

fun register_triggers ::
    "(string list \<Rightarrow> bool) \<Rightarrow> scene \<Rightarrow> 'cb \<Rightarrow> dict list \<Rightarrow> 'cb scheduler \<Rightarrow> 'cb scheduler" where
  "register_triggers accepts sc cb [] sch = sch"
| "register_triggers accepts sc cb (trigger # rest) sch =
     (if dict_get trigger ''type'' = JStr ''time'' then
        (let cron_expr = dict_get trigger ''cron'' in
         if truthy cron_expr
         then register_triggers accepts sc cb rest (add_cron_job accepts (s_id sc) cron_expr cb sc sch)
         else register_triggers accepts sc cb rest sch)
      else register_triggers accepts sc cb rest sch)"

definition register_scene ::
    "(string list \<Rightarrow> bool) \<Rightarrow> scene \<Rightarrow> 'cb \<Rightarrow> 'cb scheduler \<Rightarrow> 'cb scheduler" where
  "register_scene accepts sc cb sch =
     register_triggers accepts sc cb (triggers (s_definition sc)) (unregister_scene (s_id sc) sch)"

definition get_scheduled_scenes :: "'cb scheduler \<Rightarrow> string list" where
  "get_scheduled_scenes sch = map fst (job_map sch)"

text \<open>
  The time triggers of a scene that \<^verbatim>\<open>register_scene\<close> hands to the library and the
  library accepts, and the schedules that fire once the scheduler runs.
\<close>

definition valid_cron_triggers :: "(string list \<Rightarrow> bool) \<Rightarrow> scene \<Rightarrow> string list list" where
  "valid_cron_triggers accepts sc =
     concat (map (\<lambda>t. if dict_get t ''type'' = JStr ''time'' then
                         (case dict_get t ''cron'' of
                            JStr s \<Rightarrow> if length (split s) = 5 \<and> accepts (split s) then [split s] else []
                          | _ \<Rightarrow> [])
                       else [])
                 (triggers (s_definition sc)))"

definition active_schedules :: "'cb scheduler \<Rightarrow> 'cb job list" where
  "active_schedules sch = jobstore (start sch)"

section \<open>Definition parsing\<close>

text \<open>
  \<^verbatim>\<open>domain/scene_engine/parser.py\<close>. \<^verbatim>\<open>SceneDefinition(**definition_data)\<close> is the
  validation library's check of the declared field types: \<open>triggers\<close> a list of
  dictionaries (absent: the empty list), \<open>conditions\<close> absent, null or a dictionary with
  \<open>operator\<close> one of \<^verbatim>\<open>and\<close>, \<^verbatim>\<open>or\<close> and \<open>items\<close> a list of dictionaries, \<open>actions\<close>
  a list of dictionaries. Other keys are ignored. It raises \<open>ValidationError\<close> if it
  rejects some place of the input. The text of the library's report on a rejected
  dictionary is the argument \<open>report\<close>.
\<close>

fun validate_dicts :: "string \<Rightarrow> nat \<Rightarrow> json list \<Rightarrow> string list \<times> dict list" where
  "validate_dicts field i [] = ([], [])"
| "validate_dicts field i (v # vs) =
     (let (errs, ds) = validate_dicts field (Suc i) vs in
      case v of
        JObj d \<Rightarrow> (errs, d # ds)
      | _ \<Rightarrow> ((field @ ''.'' @ string_of_nat i) # errs, ds))"

definition validate_dict_list :: "string \<Rightarrow> json \<Rightarrow> string list \<times> dict list" where
  "validate_dict_list field v =
     (case v of
        JList vs \<Rightarrow> validate_dicts field 0 vs
      | _ \<Rightarrow> ([field], []))"

definition validate_operator :: "json option \<Rightarrow> string list \<times> string" where
  "validate_operator v =
     (case v of
        Some (JStr s) \<Rightarrow> if s = ''and'' \<or> s = ''or'' then ([], s) else ([''conditions.operator''], [])
      | _ \<Rightarrow> ([''conditions.operator''], []))"

definition validate_conditions :: "json option \<Rightarrow> string list \<times> condition_group option" where
  "validate_conditions v =
     (case v of
        None \<Rightarrow> ([], None)
      | Some JNull \<Rightarrow> ([], None)
      | Some (JObj c) \<Rightarrow>
          (let (e1, opr) = validate_operator (map_of c ''operator'');
               (e2, its) = (case map_of c ''items'' of
                              None \<Rightarrow> ([''conditions.items''], [])
                            | Some x \<Rightarrow> validate_dict_list ''conditions.items'' x)
           in (e1 @ e2, Some \<lparr>operator = opr, items = its\<rparr>))
      | Some _ \<Rightarrow> ([''conditions''], None))"

definition SceneDefinition_init :: "(dict \<Rightarrow> string) \<Rightarrow> dict \<Rightarrow> exn + scene_definition" where
  "SceneDefinition_init report d =
     (let (e1, ts) = (case map_of d ''triggers'' of
                        None \<Rightarrow> ([], [])
                      | Some x \<Rightarrow> validate_dict_list ''triggers'' x);
          (e2, cs) = validate_conditions (map_of d ''conditions'');
          (e3, as) = (case map_of d ''actions'' of
                        None \<Rightarrow> ([''actions''], [])
                      | Some x \<Rightarrow> validate_dict_list ''actions'' x)
      in if e1 @ e2 @ e3 = [] then Inr \<lparr>triggers = ts, conditions = cs, actions = as\<rparr>
         else Inl (ValidationError (report d)))"

text \<open>
  \<^verbatim>\<open>SceneParser.parse\<close>. Only \<open>ValidationError\<close> is caught; unpacking a value that is
  not a dictionary with \<^verbatim>\<open>**\<close> raises \<open>TypeError\<close>.
\<close>

definition parse :: "(dict \<Rightarrow> string) \<Rightarrow> json \<Rightarrow> exn + scene_definition" where
  "parse report definition_data =
     (case definition_data of
        JObj d \<Rightarrow>
          (case SceneDefinition_init report d of
             Inr sd \<Rightarrow> Inr sd
           | Inl (ValidationError m) \<Rightarrow>
               Inl (SceneDefinitionError (''Invalid scene definition: '' @ str_exn (ValidationError m)))
           | Inl e \<Rightarrow> Inl e)
      | _ \<Rightarrow> Inl (TypeError (''domain.entities.scene.SceneDefinition() argument after ** must be a mapping, not ''
                     @ type_name definition_data)))"

definition validate_trigger :: "dict \<Rightarrow> bool" where
  "validate_trigger trigger =
     (if map_of trigger ''type'' = None then False
      else let trigger_type = dict_get trigger ''type'' in
        if trigger_type = JStr ''device_state''
          then map_of trigger ''device_id'' \<noteq> None \<and> map_of trigger ''condition'' \<noteq> None
        else if trigger_type = JStr ''time'' then map_of trigger ''cron'' \<noteq> None
        else if trigger_type = JStr ''manual'' then True
        else False)"

definition validate_action :: "dict \<Rightarrow> bool" where
  "validate_action action =
     (if map_of action ''type'' = None then False
      else let action_type = dict_get action ''type'' in
        if action_type = JStr ''device_control''
          then map_of action ''device_id'' \<noteq> None \<and> map_of action ''command'' \<noteq> None
        else if action_type = JStr ''delay'' then map_of action ''seconds'' \<noteq> None
        else False)"

section \<open>Example data\<close>

text \<open>A context in which device \<^verbatim>\<open>d1\<close> is closed, with a brightness of 40.\<close>

definition d1_closed :: device_state where
  "d1_closed = \<lparr>state = ''closed'', attributes = [(''brightness'', JInt 40)], last_updated = 0\<rparr>"

definition ctx_d1 :: eval_context where
  "ctx_d1 = \<lparr>device_states = [(''d1'', d1_closed)], scene_id = ''s1'', current_time = 0\<rparr>"

text \<open>
  The scene of the specification's scenario: run only if \<^verbatim>\<open>d1\<close> is open, then switch
  a light on. The store knows \<^verbatim>\<open>d1\<close> as closed.
\<close>

definition light_on :: dict where
  "light_on = [(''type'', JStr ''device_control''), (''device_id'', JStr ''light_01''),
               (''command'', JObj [(''state'', JStr ''on'')])]"

definition d1_is :: "string \<Rightarrow> string \<Rightarrow> json \<Rightarrow> dict" where
  "d1_is opr attr v =
     [(''type'', JStr ''device_state''), (''device_id'', JStr ''d1''),
      (''condition'', JObj [(''operator'', JStr opr), (''attribute'', JStr attr), (''value'', v)])]"

definition scene_with :: "dict list \<Rightarrow> condition_group option \<Rightarrow> dict list \<Rightarrow> scene" where
  "scene_with ts cs as =
     \<lparr>s_id = ''s1'', s_name = ''example'', s_description = None,
       s_definition = \<lparr>triggers = ts, conditions = cs, actions = as\<rparr>, s_is_active = True\<rparr>"

definition scene_d1_open :: scene where
  "scene_d1_open =
     scene_with [] (Some \<lparr>operator = ''and'', items = [d1_is ''eq'' ''state'' (JStr ''open'')]\<rparr>)
       [light_on]"

definition world_d1 :: world where
  "world_d1 = \<lparr>store = [(''d1'', d1_closed)], effects = []\<rparr>"

text \<open>A backend that answers every call, and one that cannot reach \<^verbatim>\<open>light_01\<close>.\<close>

definition env_ok :: environment where
  "env_ok = \<lparr>hal = (\<lambda>tr device_id command. None), time_of_day = (12, 0, 0, 0), timestamp = 0\<rparr>"

definition env_light_down :: environment where
  "env_light_down =
     \<lparr>hal = (\<lambda>tr device_id command.
               if device_id = JStr ''light_01''
               then Some (HALCommunicationError ''Failed to connect to HAL: timed out'')
               else None),
       time_of_day = (12, 0, 0, 0), timestamp = 0\<rparr>"

definition plug_on :: dict where
  "plug_on = [(''type'', JStr ''device_control''), (''device_id'', JStr ''plug_01''),
              (''command'', JObj [(''state'', JStr ''on'')])]"

definition wait_5 :: dict where
  "wait_5 = [(''type'', JStr ''delay''), (''seconds'', JInt 5)]"

text \<open>Two cron triggers in one scene, and a scheduler that is running and empty.\<close>

definition two_cron_scene :: scene where
  "two_cron_scene =
     scene_with [[(''type'', JStr ''time''), (''cron'', JStr ''0 8 * * *'')],
                 [(''type'', JStr ''time''), (''cron'', JStr ''0 18 * * *'')]] None [light_on]"

definition empty_scheduler :: "nat scheduler" where
  "empty_scheduler = \<lparr>running = True, pending = [], jobstore = [], job_map = []\<rparr>"

text \<open>
  A scene whose third action reaches the light, and three scenes that cannot be
  evaluated: an item with an unknown type tag, a comparison of a string with a number,
  and a device state trigger without a device id.
\<close>

definition scene_abort :: scene where
  "scene_abort = scene_with [] None [plug_on, wait_5, light_on, plug_on]"

definition scene_unknown_condition :: scene where
  "scene_unknown_condition =
     scene_with [] (Some \<lparr>operator = ''and'', items = [[(''type'', JStr ''bogus'')]]\<rparr>) [light_on]"

definition scene_bad_comparison :: scene where
  "scene_bad_comparison =
     scene_with [] (Some \<lparr>operator = ''and'', items = [d1_is ''gt'' ''state'' (JInt 5)]\<rparr>) [light_on]"

definition scene_bad_trigger :: scene where
  "scene_bad_trigger = scene_with [[(''type'', JStr ''device_state'')]] None [light_on]"

text \<open>A stand-in for the validation library's report on a rejected dictionary.\<close>

definition sample_report :: "dict \<Rightarrow> string" where
  "sample_report d = ''validation errors for SceneDefinition, input '' @ py_repr (JObj d)"

text \<open>A condition group whose only item is itself a group.\<close>

definition nested_group :: condition_group where
  "nested_group =
     \<lparr>operator = ''and'', items = [[(''operator'', JStr ''and''), (''items'', JList [])]]\<rparr>"

section \<open>Verified properties\<close>

lemma time_le_refl: "time_le a a"
  by (simp add: time_le_def)

lemma time_le_total: "time_le a b \<or> time_lt b a"
  by (cases a; cases b) (auto simp: time_le_def)

lemma time_lt_not_le: "time_lt b a \<Longrightarrow> \<not> time_le a b"
  by (cases a; cases b) (auto simp: time_le_def)

text \<open>
  Claim C5. For every evaluation context, a group with operator \<^verbatim>\<open>and\<close> and no items
  evaluates to true, and a group with operator \<^verbatim>\<open>or\<close> and no items evaluates to
  false; this holds for the group object and for the evaluator called with the dumped
  group of a scene definition.
\<close>

theorem empty_group_identities:
  "ConditionGroup_evaluate (ConditionGroup ''and'' (JList [])) ctx now = Inr True
   \<and> ConditionGroup_evaluate (ConditionGroup ''or'' (JList [])) ctx now = Inr False
   \<and> ConditionEvaluator_evaluate (Some (model_dump \<lparr>operator = ''and'', items = []\<rparr>)) ctx now
       = Inr True
   \<and> ConditionEvaluator_evaluate (Some (model_dump \<lparr>operator = ''or'', items = []\<rparr>)) ctx now
       = Inr False"
  by (simp add: py_iter_def ConditionEvaluator_evaluate_def model_dump_def
      ConditionGroup_init_def dict_get_def lower_def lower_char_def)

text \<open>
  Claim C6. For a time range from \<open>t1\<close> to \<open>t2\<close> and a current time \<open>now\<close>: if
  \<open>t1 \<le> t2\<close> the condition holds exactly when \<open>t1 \<le> now \<le> t2\<close>, both ends included;
  if \<open>t1 > t2\<close> the range wraps midnight and the condition holds exactly when
  \<open>now \<ge> t1\<close> or \<open>now \<le> t2\<close>. One of the two cases always applies.
\<close>

theorem time_range_evaluate_cases:
  "(time_le t1 t2 \<longrightarrow>
      TimeRangeCondition_evaluate t1 t2 now = (time_le t1 now \<and> time_le now t2)
      \<and> TimeRangeCondition_evaluate t1 t2 t1
      \<and> TimeRangeCondition_evaluate t1 t2 t2)
   \<and> (time_lt t2 t1 \<longrightarrow>
      TimeRangeCondition_evaluate t1 t2 now = (time_ge now t1 \<or> time_le now t2))
   \<and> (time_le t1 t2 \<or> time_lt t2 t1)"
  using time_le_total [of t1 t2] time_lt_not_le [of t2 t1]
  by (auto simp: TimeRangeCondition_evaluate_def time_le_refl)

text \<open>
  The range from 22:00 to 06:00, built from its two strings, holds at 23:30 and not at
  12:00; the range from 09:00 to 17:00 holds at 17:00 and not a microsecond later.
\<close>

theorem time_range_evaluate_cases_witness:
  "TimeRangeCondition_init (JStr ''22:00'') (JStr ''06:00'')
     = Inr (TimeRangeCondition (22, 0, 0, 0) (6, 0, 0, 0))
   \<and> time_lt (6, 0, 0, 0) (22, 0, 0, 0)
   \<and> TimeRangeCondition_evaluate (22, 0, 0, 0) (6, 0, 0, 0) (23, 30, 0, 0)
   \<and> \<not> TimeRangeCondition_evaluate (22, 0, 0, 0) (6, 0, 0, 0) (12, 0, 0, 0)
   \<and> time_le (9, 0, 0, 0) (17, 0, 0, 0)
   \<and> TimeRangeCondition_evaluate (9, 0, 0, 0) (17, 0, 0, 0) (17, 0, 0, 0)
   \<and> \<not> TimeRangeCondition_evaluate (9, 0, 0, 0) (17, 0, 0, 0) (17, 0, 0, 1)"
  using time_range_evaluate_cases [of "(22, 0, 0, 0)" "(6, 0, 0, 0)" "(23, 30, 0, 0)"]
        time_range_evaluate_cases [of "(22, 0, 0, 0)" "(6, 0, 0, 0)" "(12, 0, 0, 0)"]
        time_range_evaluate_cases [of "(9, 0, 0, 0)" "(17, 0, 0, 0)" "(17, 0, 0, 1)"]
  by (simp add: time_le_def time_ge_def TimeRangeCondition_init_def strptime_HM_def
      is_digit_def digit_val_def)

lemma get_any_absent:
  "hashable k \<Longrightarrow> (\<forall>s. k = JStr s \<longrightarrow> map_of d s = None) \<Longrightarrow> get_any d k = Inr None"
  by (cases k) (simp_all add: get_any_def)

lemma compare_unknown:
  "opr \<notin> JStr ` {''eq'', ''ne'', ''gt'', ''ge'', ''lt'', ''le''} \<Longrightarrow> compare actual expected opr = Inr False"
  by (auto simp: compare_def)

lemma get_any_hashable: "hashable k \<Longrightarrow> \<exists>r. get_any d k = Inr r"
  by (cases k) (simp_all add: get_any_def)

lemma unhashable_not_state: "\<not> hashable k \<Longrightarrow> k \<noteq> JStr s"
  by (cases k) simp_all

text \<open>
  Claim C4, as stated, fails: the factory builds a leaf from an item whose attribute is a
  list, the device is in the context, the operator is unknown, and the evaluation ends
  with \<open>TypeError\<close> at the lookup of the attribute instead of false. A list as
  device id raises at the lookup of the device.
\<close>

theorem device_state_leaf_unhashable_faults:
  "create (JObj [(''type'', JStr ''device_state''), (''device_id'', JStr ''d1''),
                 (''condition'', JObj [(''operator'', JStr ''approx''), (''attribute'', JList []),
                                       (''value'', JInt 50)])])
     = Inr (DeviceStateCondition (JStr ''d1'') (JStr ''approx'') (JList []) (JInt 50))
   \<and> evaluate (DeviceStateCondition (JStr ''d1'') (JStr ''approx'') (JList []) (JInt 50))
        ctx_d1 (12, 0, 0, 0) = Inl (unhashable (JList []))
   \<and> evaluate (DeviceStateCondition (JList []) (JStr ''eq'') (JStr ''state'') (JStr ''open''))
        ctx_d1 (12, 0, 0, 0) = Inl (unhashable (JList []))"
  by (simp add: create_def registry_def dict_get_def DeviceStateCondition_init_def
      dict_get_default_def DeviceStateCondition_evaluate_def get_any_def ctx_d1_def)

text \<open>
  Claim C4, amended. Device id and attribute name may be any value of a dictionary item.
  Where they can be dictionary keys (strings, numbers, truth values, null), a device
  state leaf is false, without an exception, when its device id is not in the context's
  device states, and when the device is there but the attribute it names (other than
  \<^verbatim>\<open>state\<close>) is not among the device's attributes; an operator outside
  \<^verbatim>\<open>eq ne gt ge lt le\<close> makes the comparison, and with it the leaf, false. A list or
  a dictionary as device id, or as attribute name of a device that is there, raises
  \<open>TypeError\<close> at the lookup.
\<close>

theorem device_state_leaf_fail_closed:
  "(hashable device_id \<and> (\<forall>d. device_id = JStr d \<longrightarrow> map_of (device_states ctx) d = None)
      \<longrightarrow> evaluate (DeviceStateCondition device_id opr attribute val) ctx now = Inr False)
   \<and> (map_of (device_states ctx) d = Some ds \<and> attribute \<noteq> JStr ''state'' \<and> hashable attribute
       \<and> (\<forall>a. attribute = JStr a \<longrightarrow> map_of (attributes ds) a = None)
      \<longrightarrow> evaluate (DeviceStateCondition (JStr d) opr attribute val) ctx now = Inr False)
   \<and> (opr \<notin> JStr ` {''eq'', ''ne'', ''gt'', ''ge'', ''lt'', ''le''}
      \<longrightarrow> compare actual expected opr = Inr False
        \<and> (hashable device_id \<and> hashable attribute
            \<longrightarrow> evaluate (DeviceStateCondition device_id opr attribute val) ctx now = Inr False))
   \<and> (\<not> hashable device_id
      \<longrightarrow> evaluate (DeviceStateCondition device_id opr attribute val) ctx now
            = Inl (unhashable device_id))
   \<and> (map_of (device_states ctx) d = Some ds \<and> \<not> hashable attribute
      \<longrightarrow> evaluate (DeviceStateCondition (JStr d) opr attribute val) ctx now
            = Inl (unhashable attribute))"
proof (intro conjI impI)
  assume "hashable device_id \<and> (\<forall>d. device_id = JStr d \<longrightarrow> map_of (device_states ctx) d = None)"
  then show "evaluate (DeviceStateCondition device_id opr attribute val) ctx now = Inr False"
    by (simp add: DeviceStateCondition_evaluate_def get_any_absent)
next
  assume a: "map_of (device_states ctx) d = Some ds \<and> attribute \<noteq> JStr ''state'' \<and> hashable attribute
       \<and> (\<forall>a. attribute = JStr a \<longrightarrow> map_of (attributes ds) a = None)"
  then have "get_any (attributes ds) attribute = Inr None"
    by (simp add: get_any_absent)
  moreover have "get_any (device_states ctx) (JStr d) = Inr (Some ds)"
    using a by (simp add: get_any_def)
  ultimately show "evaluate (DeviceStateCondition (JStr d) opr attribute val) ctx now = Inr False"
    using a by (simp add: DeviceStateCondition_evaluate_def)
next
  assume "opr \<notin> JStr ` {''eq'', ''ne'', ''gt'', ''ge'', ''lt'', ''le''}"
  then show "compare actual expected opr = Inr False" by (rule compare_unknown)
next
  assume u: "opr \<notin> JStr ` {''eq'', ''ne'', ''gt'', ''ge'', ''lt'', ''le''}"
    and h: "hashable device_id \<and> hashable attribute"
  obtain r where r: "get_any (device_states ctx) device_id = Inr r"
    using h get_any_hashable by blast
  show "evaluate (DeviceStateCondition device_id opr attribute val) ctx now = Inr False"
  proof (cases r)
    case None
    with r show ?thesis by (simp add: DeviceStateCondition_evaluate_def)
  next
    case (Some ds')
    obtain q where q: "get_any (attributes ds') attribute = Inr q"
      using h get_any_hashable by blast
    show ?thesis
      using r Some q compare_unknown [OF u]
      by (cases q) (simp_all add: DeviceStateCondition_evaluate_def)
  qed
next
  assume "\<not> hashable device_id"
  then show "evaluate (DeviceStateCondition device_id opr attribute val) ctx now
               = Inl (unhashable device_id)"
    by (simp add: DeviceStateCondition_evaluate_def get_any_def)
next
  assume a: "map_of (device_states ctx) d = Some ds \<and> \<not> hashable attribute"
  then have "attribute \<noteq> JStr ''state''" using unhashable_not_state by blast
  with a show "evaluate (DeviceStateCondition (JStr d) opr attribute val) ctx now
               = Inl (unhashable attribute)"
    by (simp add: DeviceStateCondition_evaluate_def get_any_def)
qed

text \<open>
  In the context where \<^verbatim>\<open>d1\<close> is closed with brightness 40: a leaf on the unknown
  \<^verbatim>\<open>d2\<close>, a leaf on the missing attribute \<^verbatim>\<open>humidity\<close> and a leaf with the operator
  \<^verbatim>\<open>approx\<close> are false, while brightness below 50 is true; a dictionary as device id
  and a list as attribute name raise.
\<close>

theorem device_state_leaf_fail_closed_witness:
  "evaluate (DeviceStateCondition (JStr ''d2'') (JStr ''eq'') (JStr ''state'') (JStr ''open'')) ctx_d1 (12, 0, 0, 0) = Inr False
   \<and> evaluate (DeviceStateCondition (JStr ''d1'') (JStr ''lt'') (JStr ''humidity'') (JInt 50)) ctx_d1 (12, 0, 0, 0) = Inr False
   \<and> compare (JInt 40) (JInt 50) (JStr ''approx'') = Inr False
   \<and> evaluate (DeviceStateCondition (JStr ''d1'') (JStr ''approx'') (JStr ''brightness'') (JInt 50)) ctx_d1 (12, 0, 0, 0) = Inr False
   \<and> evaluate (DeviceStateCondition (JStr ''d1'') (JStr ''lt'') (JStr ''brightness'') (JInt 50)) ctx_d1 (12, 0, 0, 0) = Inr True
   \<and> evaluate (DeviceStateCondition (JObj []) (JStr ''eq'') (JStr ''state'') (JStr ''open'')) ctx_d1 (12, 0, 0, 0)
       = Inl (unhashable (JObj []))
   \<and> evaluate (DeviceStateCondition (JStr ''d1'') (JStr ''approx'') (JList []) (JInt 50)) ctx_d1 (12, 0, 0, 0)
       = Inl (unhashable (JList []))"
  using device_state_leaf_fail_closed [of "JStr ''d2''" ctx_d1 "JStr ''eq''" "JStr ''state''" "JStr ''open''" "(12, 0, 0, 0)"
               "''d1''" d1_closed "JInt 40" "JInt 50"]
        device_state_leaf_fail_closed [of "JStr ''d1''" ctx_d1 "JStr ''lt''" "JStr ''humidity''" "JInt 50" "(12, 0, 0, 0)"
               "''d1''" d1_closed "JInt 40" "JInt 50"]
        device_state_leaf_fail_closed [of "JStr ''d1''" ctx_d1 "JStr ''approx''" "JStr ''brightness''" "JInt 50" "(12, 0, 0, 0)"
               "''d1''" d1_closed "JInt 40" "JInt 50"]
        device_state_leaf_fail_closed [of "JObj []" ctx_d1 "JStr ''eq''" "JStr ''state''" "JStr ''open''" "(12, 0, 0, 0)"
               "''d1''" d1_closed "JInt 40" "JInt 50"]
        device_state_leaf_fail_closed [of "JStr ''d1''" ctx_d1 "JStr ''approx''" "JList []" "JInt 50" "(12, 0, 0, 0)"
               "''d1''" d1_closed "JInt 40" "JInt 50"]
  by (simp add: ctx_d1_def d1_closed_def DeviceStateCondition_evaluate_def get_any_def compare_def)

text \<open>
  Claim C8. When the conditions of a scene evaluate to false against the context built
  for it, \<^verbatim>\<open>execute_scene\<close> returns the status \<^verbatim>\<open>skipped\<close> with the message
  \<^verbatim>\<open>Conditions not met\<close> and leaves the world as it was: no call to the backend, no
  delay, and the same device state store.
\<close>

theorem conditions_not_met_skips:
  assumes "prepare_context env w sc = Inr ctx"
    and "ConditionEvaluator_evaluate (dumped_conditions sc) ctx (time_of_day env) = Inr False"
  shows "execute_scene env w sc triggered_by =
           (\<lparr>status = ''skipped'', result_scene_id = s_id sc, message = Some ''Conditions not met''\<rparr>, w)
         \<and> effects (snd (execute_scene env w sc triggered_by)) = effects w
         \<and> store (snd (execute_scene env w sc triggered_by)) = store w"
  using assms by (simp add: execute_scene_def)

lemma scenario_context: "prepare_context env_ok world_d1 scene_d1_open = Inr ctx_d1"
  by (simp add: prepare_context_def extract_device_ids_def scene_d1_open_def scene_with_def
      d1_is_def light_on_def dict_get_def set_add_def get_state_def get_any_def world_d1_def
      ctx_d1_def env_ok_def)

lemma scenario_conditions:
  "ConditionEvaluator_evaluate (dumped_conditions scene_d1_open) ctx_d1 (time_of_day env_ok) = Inr False"
  by (simp add: dumped_conditions_def scene_d1_open_def scene_with_def model_dump_def
      ConditionEvaluator_evaluate_def ConditionGroup_init_def dict_get_def lower_def lower_char_def
      py_iter_def evaluate_item_def create_def registry_def d1_is_def DeviceStateCondition_init_def
      dict_get_default_def DeviceStateCondition_evaluate_def get_any_def ctx_d1_def d1_closed_def
      compare_def)

text \<open>
  The scenario of the specification: the scene asks for \<^verbatim>\<open>d1\<close> to be open, the store
  has it closed; the run is skipped and the light is not touched.
\<close>

theorem conditions_not_met_skips_witness:
  "prepare_context env_ok world_d1 scene_d1_open = Inr ctx_d1
   \<and> ConditionEvaluator_evaluate (dumped_conditions scene_d1_open) ctx_d1 (time_of_day env_ok) = Inr False
   \<and> execute_scene env_ok world_d1 scene_d1_open ''manual'' =
       (\<lparr>status = ''skipped'', result_scene_id = ''s1'', message = Some ''Conditions not met''\<rparr>,
        \<lparr>store = [(''d1'', d1_closed)], effects = []\<rparr>)"
  using conditions_not_met_skips [OF scenario_context scenario_conditions, of "''manual''"] scenario_context scenario_conditions
  by (simp add: scene_d1_open_def scene_with_def world_d1_def)


lemma execute_actions_append:
  "execute_actions env tr (xs @ ys) =
     (case execute_actions env tr xs of
        (Some e, tr') \<Rightarrow> (Some e, tr')
      | (None, tr') \<Rightarrow> execute_actions env tr' ys)"
  by (induction xs arbitrary: tr) (auto split: prod.splits option.splits)

lemma execute_action_extends:
  "execute_action env tr a = (r, tr') \<Longrightarrow> \<exists>ext. tr' = tr @ ext"
  by (auto simp: execute_action_def execute_device_control_def execute_delay_def Let_def
      split: if_splits option.splits sum.splits bool.splits)

lemma execute_actions_extends:
  "execute_actions env tr xs = (r, tr') \<Longrightarrow> \<exists>ext. tr' = tr @ ext"
proof (induction xs arbitrary: tr)
  case Nil
  then show ?case by simp
next
  case (Cons a xs)
  obtain r1 t1 where a: "execute_action env tr a = (r1, t1)" by (cases "execute_action env tr a")
  then obtain e1 where e1: "t1 = tr @ e1" using execute_action_extends by blast
  show ?case
  proof (cases r1)
    case None
    with Cons.prems a have "execute_actions env t1 xs = (r, tr')" by simp
    then obtain e2 where "tr' = t1 @ e2" using Cons.IH by blast
    with e1 show ?thesis by simp
  next
    case (Some e)
    with Cons.prems a have "tr' = t1" by simp
    with e1 show ?thesis by blast
  qed
qed

text \<open>
  Claim C7. When the conditions are met, the actions before one have run and that action
  fails with \<open>e\<close>, \<^verbatim>\<open>execute_scene\<close> returns the status \<^verbatim>\<open>failed\<close> with the text of
  \<open>e\<close> as its message; whatever follows the failing action is not run; what the earlier
  actions did stays done. If the failing action is a device control whose backend call
  raised \<open>h\<close>, the message names the device and ends with the text of \<open>h\<close>.
\<close>

theorem failing_action_aborts:
  assumes ctx: "prepare_context env w sc = Inr ctx"
    and met: "ConditionEvaluator_evaluate (dumped_conditions sc) ctx (time_of_day env) = Inr True"
    and acts: "actions (s_definition sc) = before @ failing # after"
    and pre: "execute_actions env (effects w) before = (None, tr1)"
    and fail: "execute_action env tr1 failing = (Some e, tr2)"
  shows "execute_scene env w sc triggered_by =
           (\<lparr>status = ''failed'', result_scene_id = s_id sc, message = Some (str_exn e)\<rparr>,
            w\<lparr>effects := tr2\<rparr>)
         \<and> execute_actions env (effects w) (before @ failing # after) = (Some e, tr2)
         \<and> (\<exists>sent. tr1 = effects w @ sent) \<and> (\<exists>attempt. tr2 = tr1 @ attempt)
         \<and> (dict_get failing ''type'' = JStr ''device_control''
              \<and> map_of failing ''device_id'' = Some device_id
              \<and> map_of failing ''command'' = Some command
              \<and> hal env tr1 device_id command = Some h
            \<longrightarrow> e = SceneExecutionError ''device_control''
                      (''Failed to control device '' @ py_str device_id @ '': '' @ str_exn h)
              \<and> str_exn e = ''Scene execution failed: device_control, reason: Failed to control device ''
                      @ py_str device_id @ '': '' @ str_exn h
              \<and> tr2 = tr1 @ [ControlDevice device_id command])"
proof -
  have run: "execute_actions env (effects w) (before @ failing # after) = (Some e, tr2)"
    using pre fail by (simp add: execute_actions_append)
  have res: "execute_scene env w sc triggered_by =
           (\<lparr>status = ''failed'', result_scene_id = s_id sc, message = Some (str_exn e)\<rparr>,
            w\<lparr>effects := tr2\<rparr>)"
    using ctx met acts run by (simp add: execute_scene_def)
  have p1: "\<exists>sent. tr1 = effects w @ sent" using pre execute_actions_extends by blast
  have p2: "\<exists>attempt. tr2 = tr1 @ attempt" using fail execute_action_extends by blast
  have dev: "dict_get failing ''type'' = JStr ''device_control''
              \<and> map_of failing ''device_id'' = Some device_id
              \<and> map_of failing ''command'' = Some command
              \<and> hal env tr1 device_id command = Some h
            \<longrightarrow> e = SceneExecutionError ''device_control''
                      (''Failed to control device '' @ py_str device_id @ '': '' @ str_exn h)
              \<and> str_exn e = ''Scene execution failed: device_control, reason: Failed to control device ''
                      @ py_str device_id @ '': '' @ str_exn h
              \<and> tr2 = tr1 @ [ControlDevice device_id command]"
    using fail by (auto simp: execute_action_def execute_device_control_def)
  from res run p1 p2 dev show ?thesis by blast
qed

lemma abort_context:
  "prepare_context env_light_down world_d1 scene_abort
     = Inr \<lparr>device_states = [], scene_id = ''s1'', current_time = 0\<rparr>"
  by (simp add: prepare_context_def extract_device_ids_def scene_abort_def scene_with_def
      plug_on_def wait_5_def light_on_def dict_get_def set_add_def get_state_def get_any_def
      world_d1_def env_light_down_def)

lemma abort_conditions:
  "ConditionEvaluator_evaluate (dumped_conditions scene_abort)
     \<lparr>device_states = [], scene_id = ''s1'', current_time = 0\<rparr> (time_of_day env_light_down) = Inr True"
  by (simp add: dumped_conditions_def scene_abort_def scene_with_def ConditionEvaluator_evaluate_def)

lemma abort_actions: "actions (s_definition scene_abort) = [plug_on, wait_5] @ light_on # [plug_on]"
  by (simp add: scene_abort_def scene_with_def)

lemma abort_before:
  "execute_actions env_light_down (effects world_d1) [plug_on, wait_5]
     = (None, [ControlDevice (JStr ''plug_01'') (JObj [(''state'', JStr ''on'')]), Slept (JInt 5)])"
  by (simp add: execute_action_def execute_device_control_def execute_delay_def plug_on_def
      wait_5_def dict_get_def dict_get_default_def env_light_down_def world_d1_def
      float_overflow_def)

lemma abort_failing:
  "execute_action env_light_down
     [ControlDevice (JStr ''plug_01'') (JObj [(''state'', JStr ''on'')]), Slept (JInt 5)] light_on
     = (Some (SceneExecutionError ''device_control''
          ''Failed to control device light_01: Failed to connect to HAL: timed out''),
        [ControlDevice (JStr ''plug_01'') (JObj [(''state'', JStr ''on'')]), Slept (JInt 5),
         ControlDevice (JStr ''light_01'') (JObj [(''state'', JStr ''on'')])])"
  by (simp add: execute_action_def execute_device_control_def light_on_def dict_get_def
      env_light_down_def)

text \<open>
  With the light unreachable, the scene that switches a plug, waits, switches the light
  and switches the plug again fails at the light: the plug was switched once and the wait
  taken, and the last action never ran.
\<close>

theorem failing_action_aborts_witness:
  "execute_scene env_light_down world_d1 scene_abort ''auto'' =
     (\<lparr>status = ''failed'', result_scene_id = ''s1'',
       message = Some ''Scene execution failed: device_control, reason: Failed to control device light_01: Failed to connect to HAL: timed out''\<rparr>,
      \<lparr>store = [(''d1'', d1_closed)],
       effects = [ControlDevice (JStr ''plug_01'') (JObj [(''state'', JStr ''on'')]), Slept (JInt 5),
                  ControlDevice (JStr ''light_01'') (JObj [(''state'', JStr ''on'')])]\<rparr>)"
  using failing_action_aborts [OF abort_context abort_conditions abort_actions abort_before abort_failing,
            of "''auto''" "JStr ''light_01''" "JObj [(''state'', JStr ''on'')]"
               "HALCommunicationError ''Failed to connect to HAL: timed out''"]
  by (simp add: scene_abort_def scene_with_def world_d1_def)


text \<open>
  Claim C10. \<^verbatim>\<open>execute_scene\<close> always returns a result, whose status is one of
  \<^verbatim>\<open>success\<close>, \<^verbatim>\<open>skipped\<close> and \<^verbatim>\<open>failed\<close>. An exception raised while the context
  is built, while the conditions are evaluated or by an action does not leave the
  function: the result is \<^verbatim>\<open>failed\<close> with the text of the exception. (Exceptions are
  those of class \<^verbatim>\<open>Exception\<close>; the cancellation of the running task is not one of
  them and is outside this model.)
\<close>

theorem execute_scene_total:
  "status (fst (execute_scene env w sc triggered_by)) \<in> {''success'', ''skipped'', ''failed''}
   \<and> (prepare_context env w sc = Inl e
      \<longrightarrow> execute_scene env w sc triggered_by =
            (\<lparr>status = ''failed'', result_scene_id = s_id sc, message = Some (str_exn e)\<rparr>, w))
   \<and> (prepare_context env w sc = Inr ctx
       \<and> ConditionEvaluator_evaluate (dumped_conditions sc) ctx (time_of_day env) = Inl e
      \<longrightarrow> execute_scene env w sc triggered_by =
            (\<lparr>status = ''failed'', result_scene_id = s_id sc, message = Some (str_exn e)\<rparr>, w))
   \<and> (prepare_context env w sc = Inr ctx
       \<and> ConditionEvaluator_evaluate (dumped_conditions sc) ctx (time_of_day env) = Inr True
       \<and> execute_actions env (effects w) (actions (s_definition sc)) = (Some e, tr)
      \<longrightarrow> execute_scene env w sc triggered_by =
            (\<lparr>status = ''failed'', result_scene_id = s_id sc, message = Some (str_exn e)\<rparr>,
             w\<lparr>effects := tr\<rparr>))"
  by (auto simp: execute_scene_def split: sum.splits prod.splits option.splits)


lemma unknown_condition_context:
  "prepare_context env_ok world_d1 scene_unknown_condition
     = Inr \<lparr>device_states = [], scene_id = ''s1'', current_time = 0\<rparr>"
  by (simp add: prepare_context_def extract_device_ids_def scene_unknown_condition_def
      scene_with_def light_on_def dict_get_def set_add_def get_state_def get_any_def
      world_d1_def env_ok_def)

lemma unknown_condition_fault:
  "ConditionEvaluator_evaluate (dumped_conditions scene_unknown_condition)
     \<lparr>device_states = [], scene_id = ''s1'', current_time = 0\<rparr> (time_of_day env_ok)
     = Inl (ValueError ''Unknown condition type: bogus'')"
  by (simp add: dumped_conditions_def scene_unknown_condition_def scene_with_def model_dump_def
      ConditionEvaluator_evaluate_def ConditionGroup_init_def dict_get_def lower_def lower_char_def
      py_iter_def evaluate_item_def create_def registry_def)

lemma bad_comparison_context:
  "prepare_context env_ok world_d1 scene_bad_comparison = Inr ctx_d1"
  by (simp add: prepare_context_def extract_device_ids_def scene_bad_comparison_def scene_with_def
      d1_is_def light_on_def dict_get_def set_add_def get_state_def get_any_def world_d1_def
      ctx_d1_def env_ok_def)

lemma bad_comparison_fault:
  "ConditionEvaluator_evaluate (dumped_conditions scene_bad_comparison) ctx_d1 (time_of_day env_ok)
     = Inl (not_supported Gt (JStr ''closed'') (JInt 5))"
  by (simp add: dumped_conditions_def scene_bad_comparison_def scene_with_def model_dump_def
      ConditionEvaluator_evaluate_def ConditionGroup_init_def dict_get_def lower_def lower_char_def
      py_iter_def evaluate_item_def create_def registry_def d1_is_def DeviceStateCondition_init_def
      dict_get_default_def DeviceStateCondition_evaluate_def get_any_def ctx_d1_def d1_closed_def
      compare_def)

lemma bad_trigger_fault:
  "prepare_context env_ok world_d1 scene_bad_trigger = Inl (KeyError ''device_id'')"
  by (simp add: prepare_context_def extract_device_ids_def scene_bad_trigger_def scene_with_def
      dict_get_def)

text \<open>
  An item with the type tag \<^verbatim>\<open>bogus\<close>, a comparison of the state \<^verbatim>\<open>closed\<close> with the
  number 5 and a device state trigger without a device id each give a failed result that
  carries the text of the exception, and leave the world as it was.
\<close>

theorem execute_scene_total_witness:
  "execute_scene env_ok world_d1 scene_unknown_condition ''auto'' =
     (\<lparr>status = ''failed'', result_scene_id = ''s1'',
       message = Some ''Unknown condition type: bogus''\<rparr>, world_d1)
   \<and> execute_scene env_ok world_d1 scene_bad_comparison ''auto'' =
     (\<lparr>status = ''failed'', result_scene_id = ''s1'',
       message = Some (str_exn (not_supported Gt (JStr ''closed'') (JInt 5)))\<rparr>, world_d1)
   \<and> execute_scene env_ok world_d1 scene_bad_trigger ''auto'' =
     (\<lparr>status = ''failed'', result_scene_id = ''s1'', message = Some (repr_str ''device_id'')\<rparr>,
      world_d1)"
  using execute_scene_total [where env = env_ok and w = world_d1 and sc = scene_unknown_condition
               and triggered_by = "''auto''" and e = "ValueError ''Unknown condition type: bogus''"
               and ctx = "\<lparr>device_states = [], scene_id = ''s1'', current_time = 0\<rparr>"]
        execute_scene_total [where env = env_ok and w = world_d1 and sc = scene_bad_comparison
               and triggered_by = "''auto''" and e = "not_supported Gt (JStr ''closed'') (JInt 5)"
               and ctx = ctx_d1]
        execute_scene_total [where env = env_ok and w = world_d1 and sc = scene_bad_trigger
               and triggered_by = "''auto''" and e = "KeyError ''device_id''"]
        unknown_condition_context unknown_condition_fault bad_comparison_context
        bad_comparison_fault bad_trigger_fault
  by (simp add: scene_unknown_condition_def scene_bad_comparison_def scene_bad_trigger_def
      scene_with_def)


text \<open>
  Claim C3, as stated, fails: a group inside a group is not evaluated. The items of a
  group go to the factory, which knows the type tags \<^verbatim>\<open>device_state\<close> and
  \<^verbatim>\<open>time_range\<close> only; an item that is a group has no type tag, and the evaluation of
  the scene's conditions ends with \<open>ValueError\<close>.
\<close>

theorem nested_group_faults:
  "ConditionEvaluator_evaluate (Some (model_dump nested_group)) ctx_d1 (12, 0, 0, 0)
     = Inl (ValueError ''Unknown condition type: None'')"
  by (simp add: nested_group_def model_dump_def
      ConditionEvaluator_evaluate_def ConditionGroup_init_def dict_get_def lower_def lower_char_def
      py_iter_def evaluate_item_def create_def registry_def)

lemma evaluate_items_all:
  "\<forall>c\<in>set cs. \<exists>b. evaluate_item c ctx now = Inr b \<Longrightarrow>
   \<exists>rs. evaluate_items cs ctx now = Inr rs
     \<and> list_all (\<lambda>r. r) rs = (\<forall>c\<in>set cs. evaluate_item c ctx now = Inr True)
     \<and> list_ex (\<lambda>r. r) rs = (\<exists>c\<in>set cs. evaluate_item c ctx now = Inr True)"
proof (induction cs)
  case Nil
  then show ?case by simp
next
  case (Cons c cs)
  then obtain b where b: "evaluate_item c ctx now = Inr b" by auto
  from Cons obtain rs where rs: "evaluate_items cs ctx now = Inr rs"
     "list_all (\<lambda>r. r) rs = (\<forall>c\<in>set cs. evaluate_item c ctx now = Inr True)"
     "list_ex (\<lambda>r. r) rs = (\<exists>c\<in>set cs. evaluate_item c ctx now = Inr True)" by auto
  show ?case using b rs by simp
qed

lemma evaluate_items_fault:
  "\<exists>c\<in>set cs. \<exists>e. evaluate_item c ctx now = Inl e \<Longrightarrow> \<exists>e. evaluate_items cs ctx now = Inl e"
proof (induction cs)
  case Nil
  then show ?case by simp
next
  case (Cons c cs)
  show ?case
  proof (cases "evaluate_item c ctx now")
    case (Inl e)
    then show ?thesis by simp
  next
    case (Inr b)
    with Cons.prems have "\<exists>c\<in>set cs. \<exists>e. evaluate_item c ctx now = Inl e" by auto
    then obtain e where "evaluate_items cs ctx now = Inl e" using Cons.IH by blast
    with Inr show ?thesis by simp
  qed
qed

lemma untagged_item:
  "map_of d ''type'' = None \<Longrightarrow> evaluate_item (JObj d) ctx now = Inl (ValueError ''Unknown condition type: None'')"
  by (simp add: evaluate_item_def create_def dict_get_def registry_def)

text \<open>
  Claim C3, amended. Every item of a group is built by the factory from its type tag and
  evaluated against the same context. If every item evaluates without an exception, the
  group is the conjunction of the results for \<^verbatim>\<open>and\<close>, their disjunction for \<^verbatim>\<open>or\<close>,
  and false for any other operator. If some item raises, so does the group. An item
  without a type tag, as a group is, raises \<open>ValueError\<close>.
\<close>

theorem group_evaluate_items:
  "((\<forall>c\<in>set cs. \<exists>b. evaluate_item c ctx now = Inr b) \<longrightarrow>
      ConditionGroup_evaluate (ConditionGroup opr (JList cs)) ctx now =
        Inr (if opr = ''and'' then (\<forall>c\<in>set cs. evaluate_item c ctx now = Inr True)
             else if opr = ''or'' then (\<exists>c\<in>set cs. evaluate_item c ctx now = Inr True)
             else False))
   \<and> ((\<exists>c\<in>set cs. \<exists>e. evaluate_item c ctx now = Inl e) \<longrightarrow>
      (\<exists>e. ConditionGroup_evaluate (ConditionGroup opr (JList cs)) ctx now = Inl e))
   \<and> (map_of d ''type'' = None \<longrightarrow>
      evaluate_item (JObj d) ctx now = Inl (ValueError ''Unknown condition type: None''))"
proof (intro conjI impI)
  assume "\<forall>c\<in>set cs. \<exists>b. evaluate_item c ctx now = Inr b"
  then obtain rs where "evaluate_items cs ctx now = Inr rs"
     "list_all (\<lambda>r. r) rs = (\<forall>c\<in>set cs. evaluate_item c ctx now = Inr True)"
     "list_ex (\<lambda>r. r) rs = (\<exists>c\<in>set cs. evaluate_item c ctx now = Inr True)"
    using evaluate_items_all by blast
  then show "ConditionGroup_evaluate (ConditionGroup opr (JList cs)) ctx now =
        Inr (if opr = ''and'' then (\<forall>c\<in>set cs. evaluate_item c ctx now = Inr True)
             else if opr = ''or'' then (\<exists>c\<in>set cs. evaluate_item c ctx now = Inr True)
             else False)"
    by (simp add: py_iter_def)
next
  assume "\<exists>c\<in>set cs. \<exists>e. evaluate_item c ctx now = Inl e"
  then obtain e where "evaluate_items cs ctx now = Inl e" using evaluate_items_fault by blast
  then show "\<exists>e. ConditionGroup_evaluate (ConditionGroup opr (JList cs)) ctx now = Inl e"
    by (simp add: py_iter_def)
next
  assume "map_of d ''type'' = None"
  then show "evaluate_item (JObj d) ctx now = Inl (ValueError ''Unknown condition type: None'')"
    by (rule untagged_item)
qed

lemma d1_items:
  "evaluate_item (JObj (d1_is ''eq'' ''state'' (JStr ''closed''))) ctx_d1 (12, 0, 0, 0) = Inr True"
  "evaluate_item (JObj (d1_is ''lt'' ''brightness'' (JInt 30))) ctx_d1 (12, 0, 0, 0) = Inr False"
  "evaluate_item (JObj [(''type'', JStr ''time_range''), (''start'', JStr ''09:00''), (''end'', JStr ''17:00'')]) ctx_d1 (12, 0, 0, 0) = Inr True"
  by (simp_all add: evaluate_item_def create_def registry_def d1_is_def dict_get_def
      DeviceStateCondition_init_def dict_get_default_def DeviceStateCondition_evaluate_def
      get_any_def ctx_d1_def d1_closed_def compare_def TimeRangeCondition_init_def strptime_HM_def
      is_digit_def digit_val_def TimeRangeCondition_evaluate_def time_le_def)

text \<open>
  Two device state items, one true and one false, under \<^verbatim>\<open>and\<close>, \<^verbatim>\<open>or\<close> and the
  unknown \<^verbatim>\<open>xor\<close>; and a group item beside a true one, under \<^verbatim>\<open>or\<close>.
\<close>

theorem group_evaluate_items_witness:
  "ConditionGroup_evaluate (ConditionGroup ''and''
      (JList [JObj (d1_is ''eq'' ''state'' (JStr ''closed'')), JObj (d1_is ''lt'' ''brightness'' (JInt 30))]))
      ctx_d1 (12, 0, 0, 0) = Inr False
   \<and> ConditionGroup_evaluate (ConditionGroup ''or''
      (JList [JObj (d1_is ''eq'' ''state'' (JStr ''closed'')), JObj (d1_is ''lt'' ''brightness'' (JInt 30))]))
      ctx_d1 (12, 0, 0, 0) = Inr True
   \<and> ConditionGroup_evaluate (ConditionGroup ''xor''
      (JList [JObj (d1_is ''eq'' ''state'' (JStr ''closed'')), JObj (d1_is ''lt'' ''brightness'' (JInt 30))]))
      ctx_d1 (12, 0, 0, 0) = Inr False
   \<and> (\<exists>e. ConditionGroup_evaluate (ConditionGroup ''or''
      (JList [JObj (d1_is ''eq'' ''state'' (JStr ''closed'')), JObj (model_dump nested_group)]))
      ctx_d1 (12, 0, 0, 0) = Inl e)"
proof -
  let ?a = "JObj (d1_is ''eq'' ''state'' (JStr ''closed''))"
  let ?b = "JObj (d1_is ''lt'' ''brightness'' (JInt 30))"
  let ?n = "JObj (model_dump nested_group)"
  let ?t = "(12, 0, 0, 0) :: pytime"
  have untagged: "map_of (model_dump nested_group) ''type'' = None"
    by (simp add: model_dump_def)
  have ok: "\<forall>c\<in>set [?a, ?b]. \<exists>b. evaluate_item c ctx_d1 ?t = Inr b"
    using d1_items by auto
  have r1: "ConditionGroup_evaluate (ConditionGroup ''and'' (JList [?a, ?b])) ctx_d1 ?t = Inr False"
    using group_evaluate_items [where cs = "[?a, ?b]" and ctx = ctx_d1 and now = ?t and opr = "''and''"
                and d = "model_dump nested_group"] ok d1_items
    by (simp del: ConditionGroup_evaluate.simps)
  have r2: "ConditionGroup_evaluate (ConditionGroup ''or'' (JList [?a, ?b])) ctx_d1 ?t = Inr True"
    using group_evaluate_items [where cs = "[?a, ?b]" and ctx = ctx_d1 and now = ?t and opr = "''or''"
                and d = "model_dump nested_group"] ok d1_items
    by (simp del: ConditionGroup_evaluate.simps)
  have r3: "ConditionGroup_evaluate (ConditionGroup ''xor'' (JList [?a, ?b])) ctx_d1 ?t = Inr False"
    using group_evaluate_items [where cs = "[?a, ?b]" and ctx = ctx_d1 and now = ?t and opr = "''xor''"
                and d = "model_dump nested_group"] ok
    by (simp del: ConditionGroup_evaluate.simps)
  have nested: "evaluate_item ?n ctx_d1 ?t = Inl (ValueError ''Unknown condition type: None'')"
    using group_evaluate_items [where cs = "[?a, ?n]" and ctx = ctx_d1 and now = ?t and opr = "''or''"
                and d = "model_dump nested_group"] untagged
    by blast
  then have bad: "\<exists>c\<in>set [?a, ?n]. \<exists>e. evaluate_item c ctx_d1 ?t = Inl e"
    by simp
  have r4: "\<exists>e. ConditionGroup_evaluate (ConditionGroup ''or'' (JList [?a, ?n])) ctx_d1 ?t = Inl e"
    using group_evaluate_items [where cs = "[?a, ?n]" and ctx = ctx_d1 and now = ?t and opr = "''or''"
                and d = "model_dump nested_group"] bad
    by blast
  from r1 r2 r3 r4 show ?thesis by blast
qed


text \<open>
  Claim C1, as stated, fails twice. \<^verbatim>\<open>parse\<close> returns a definition for an action
  without a type tag and for a delay of minus five seconds. And a value that is not a
  dictionary raises \<open>TypeError\<close>, which \<^verbatim>\<open>parse\<close> does not catch.
\<close>

theorem parse_accepts_any_action:
  "parse sample_report (JObj [(''actions'', JList [JObj []])])
     = Inr \<lparr>triggers = [], conditions = None, actions = [[]]\<rparr>
   \<and> parse sample_report
        (JObj [(''actions'', JList [JObj [(''type'', JStr ''delay''), (''seconds'', JInt (- 5))]])])
       = Inr \<lparr>triggers = [], conditions = None,
              actions = [[(''type'', JStr ''delay''), (''seconds'', JInt (- 5))]]\<rparr>
   \<and> parse sample_report (JList [])
       = Inl (TypeError ''domain.entities.scene.SceneDefinition() argument after ** must be a mapping, not list'')"
  by (simp add: parse_def SceneDefinition_init_def validate_conditions_def validate_dict_list_def)

lemma validate_dicts_objects: "validate_dicts field i (map JObj as) = ([], as)"
  by (induction as arbitrary: i) simp_all

lemma validate_dicts_no_errors:
  "validate_dicts field i vs = ([], ds) \<Longrightarrow> vs = map JObj ds"
proof (induction vs arbitrary: i ds)
  case Nil
  then show ?case by simp
next
  case (Cons v vs)
  obtain errs ds' where r: "validate_dicts field (Suc i) vs = (errs, ds')"
    by (cases "validate_dicts field (Suc i) vs")
  with Cons.prems show ?case
    using Cons.IH [of "Suc i" ds'] by (cases v) auto
qed

lemma validate_dict_list_objects: "validate_dict_list field (JList (map JObj as)) = ([], as)"
  by (simp add: validate_dict_list_def validate_dicts_objects)

lemma validate_dict_list_no_errors:
  "validate_dict_list field v = ([], ds) \<Longrightarrow> v = JList (map JObj ds)"
  by (cases v) (auto simp: validate_dict_list_def dest: validate_dicts_no_errors)

lemma validate_operator_no_errors:
  "validate_operator v = ([], opr) \<Longrightarrow> v = Some (JStr opr) \<and> (opr = ''and'' \<or> opr = ''or'')"
  by (auto simp: validate_operator_def split: option.splits json.splits if_splits)

lemma validate_conditions_ok:
  assumes "(v = None \<or> v = Some JNull) \<and> cs = None
           \<or> (\<exists>c opr its. v = Some (JObj c) \<and> map_of c ''operator'' = Some (JStr opr)
                 \<and> (opr = ''and'' \<or> opr = ''or'')
                 \<and> map_of c ''items'' = Some (JList (map JObj its))
                 \<and> cs = Some \<lparr>operator = opr, items = its\<rparr>)"
  shows "validate_conditions v = ([], cs)"
  using assms
  by (auto simp: validate_conditions_def validate_operator_def validate_dict_list_objects)

lemma validate_conditions_no_errors:
  assumes "validate_conditions v = ([], cs)"
  shows "v = None \<or> v = Some JNull
         \<or> (\<exists>c opr its. v = Some (JObj c) \<and> map_of c ''operator'' = Some (JStr opr)
               \<and> (opr = ''and'' \<or> opr = ''or'')
               \<and> map_of c ''items'' = Some (JList (map JObj its)))"
proof (cases v)
  case None
  then show ?thesis by simp
next
  case (Some j)
  show ?thesis
  proof (cases j)
    case (JObj c)
    obtain e1 opr where o: "validate_operator (map_of c ''operator'') = (e1, opr)"
      by (cases "validate_operator (map_of c ''operator'')")
    obtain e2 its where i: "(case map_of c ''items'' of None \<Rightarrow> ([''conditions.items''], [])
                              | Some x \<Rightarrow> validate_dict_list ''conditions.items'' x) = (e2, its)"
      by (cases "case map_of c ''items'' of None \<Rightarrow> ([''conditions.items''], [])
                              | Some x \<Rightarrow> validate_dict_list ''conditions.items'' x")
    from assms Some JObj o i have e: "e1 = []" "e2 = []"
      by (simp_all add: validate_conditions_def)
    from o e have op_ok: "map_of c ''operator'' = Some (JStr opr) \<and> (opr = ''and'' \<or> opr = ''or'')"
      using validate_operator_no_errors by blast
    from i e have "map_of c ''items'' = Some (JList (map JObj its))"
      by (cases "map_of c ''items''") (auto dest: validate_dict_list_no_errors)
    with op_ok Some JObj show ?thesis by blast
  qed (use assms Some in \<open>simp_all add: validate_conditions_def\<close>)
qed

lemma init_error:
  "SceneDefinition_init report d = Inl e \<Longrightarrow> e = ValidationError (report d)"
  by (auto simp: SceneDefinition_init_def Let_def split: prod.splits if_splits)

lemma init_ok_shape:
  assumes "SceneDefinition_init report d = Inr sd"
  shows "(\<exists>as. map_of d ''actions'' = Some (JList (map JObj as)))
         \<and> (map_of d ''triggers'' = None \<or> (\<exists>ts. map_of d ''triggers'' = Some (JList (map JObj ts))))
         \<and> (map_of d ''conditions'' = None \<or> map_of d ''conditions'' = Some JNull
             \<or> (\<exists>c opr its. map_of d ''conditions'' = Some (JObj c)
                   \<and> map_of c ''operator'' = Some (JStr opr) \<and> (opr = ''and'' \<or> opr = ''or'')
                   \<and> map_of c ''items'' = Some (JList (map JObj its))))"
proof -
  obtain e1 ts where t: "(case map_of d ''triggers'' of None \<Rightarrow> ([], [])
                          | Some x \<Rightarrow> validate_dict_list ''triggers'' x) = (e1, ts)"
    by (cases "case map_of d ''triggers'' of None \<Rightarrow> ([], [])
                          | Some x \<Rightarrow> validate_dict_list ''triggers'' x")
  obtain e2 cs where c: "validate_conditions (map_of d ''conditions'') = (e2, cs)"
    by (cases "validate_conditions (map_of d ''conditions'')")
  obtain e3 as where a: "(case map_of d ''actions'' of None \<Rightarrow> ([''actions''], [])
                          | Some x \<Rightarrow> validate_dict_list ''actions'' x) = (e3, as)"
    by (cases "case map_of d ''actions'' of None \<Rightarrow> ([''actions''], [])
                          | Some x \<Rightarrow> validate_dict_list ''actions'' x")
  from assms t c a have e: "e1 = []" "e2 = []" "e3 = []"
    by (auto simp: SceneDefinition_init_def split: if_splits)
  from a e have g1: "\<exists>as. map_of d ''actions'' = Some (JList (map JObj as))"
    by (cases "map_of d ''actions''") (auto dest: validate_dict_list_no_errors)
  from t e have g2: "map_of d ''triggers'' = None
                     \<or> (\<exists>ts. map_of d ''triggers'' = Some (JList (map JObj ts)))"
    by (cases "map_of d ''triggers''") (auto dest: validate_dict_list_no_errors)
  from c e have g3: "map_of d ''conditions'' = None \<or> map_of d ''conditions'' = Some JNull
             \<or> (\<exists>c opr its. map_of d ''conditions'' = Some (JObj c)
                   \<and> map_of c ''operator'' = Some (JStr opr) \<and> (opr = ''and'' \<or> opr = ''or'')
                   \<and> map_of c ''items'' = Some (JList (map JObj its)))"
    using validate_conditions_no_errors [of "map_of d ''conditions''" cs] by simp
  from g1 g2 g3 show ?thesis by blast
qed

lemma parse_result:
  "(\<exists>sd. SceneDefinition_init report d = Inr sd \<and> parse report (JObj d) = Inr sd)
   \<or> parse report (JObj d)
        = Inl (SceneDefinitionError (''Invalid scene definition: '' @ report d))"
proof (cases "SceneDefinition_init report d")
  case (Inl e)
  then have "e = ValidationError (report d)" by (rule init_error)
  with Inl show ?thesis by (simp add: parse_def)
next
  case (Inr sd)
  then show ?thesis by (simp add: parse_def)
qed

text \<open>
  Claim C1, amended. For every dictionary, \<^verbatim>\<open>parse\<close> returns a scene definition or
  fails with a definition error whose message is \<^verbatim>\<open>Invalid scene definition: \<close> followed
  by the validation library's report, and with nothing else. It fails whenever
  \<open>actions\<close> is absent or is not a list of dictionaries, whenever \<open>triggers\<close> is
  present and is not a list of dictionaries, and whenever \<open>conditions\<close> is present, is
  not null and is not a dictionary with \<open>operator\<close> \<^verbatim>\<open>and\<close> or \<^verbatim>\<open>or\<close> and
  \<open>items\<close> a list of dictionaries. (The last conjunct records the other direction for
  the function as it is: with the three fields in shape it returns them.)
\<close>

theorem parse_dictionary:
  "((\<exists>sd. parse report (JObj d) = Inr sd)
     \<or> parse report (JObj d)
          = Inl (SceneDefinitionError (''Invalid scene definition: '' @ report d)))
   \<and> (\<not> (\<exists>as. map_of d ''actions'' = Some (JList (map JObj as)))
       \<or> \<not> (map_of d ''triggers'' = None
              \<or> (\<exists>ts. map_of d ''triggers'' = Some (JList (map JObj ts))))
       \<or> \<not> (map_of d ''conditions'' = None \<or> map_of d ''conditions'' = Some JNull
              \<or> (\<exists>c opr its. map_of d ''conditions'' = Some (JObj c)
                    \<and> map_of c ''operator'' = Some (JStr opr) \<and> (opr = ''and'' \<or> opr = ''or'')
                    \<and> map_of c ''items'' = Some (JList (map JObj its))))
      \<longrightarrow> parse report (JObj d)
            = Inl (SceneDefinitionError (''Invalid scene definition: '' @ report d)))
   \<and> (map_of d ''actions'' = Some (JList (map JObj as))
       \<and> (map_of d ''triggers'' = None \<and> ts = []
            \<or> map_of d ''triggers'' = Some (JList (map JObj ts)))
       \<and> ((map_of d ''conditions'' = None \<or> map_of d ''conditions'' = Some JNull) \<and> cs = None
            \<or> (\<exists>c opr its. map_of d ''conditions'' = Some (JObj c)
                  \<and> map_of c ''operator'' = Some (JStr opr) \<and> (opr = ''and'' \<or> opr = ''or'')
                  \<and> map_of c ''items'' = Some (JList (map JObj its))
                  \<and> cs = Some \<lparr>operator = opr, items = its\<rparr>))
      \<longrightarrow> parse report (JObj d) = Inr \<lparr>triggers = ts, conditions = cs, actions = as\<rparr>)"
proof (intro conjI impI)
  show "(\<exists>sd. parse report (JObj d) = Inr sd)
     \<or> parse report (JObj d)
          = Inl (SceneDefinitionError (''Invalid scene definition: '' @ report d))"
    using parse_result [of report d] by blast
next
  assume bad: "\<not> (\<exists>as. map_of d ''actions'' = Some (JList (map JObj as)))
       \<or> \<not> (map_of d ''triggers'' = None
              \<or> (\<exists>ts. map_of d ''triggers'' = Some (JList (map JObj ts))))
       \<or> \<not> (map_of d ''conditions'' = None \<or> map_of d ''conditions'' = Some JNull
              \<or> (\<exists>c opr its. map_of d ''conditions'' = Some (JObj c)
                    \<and> map_of c ''operator'' = Some (JStr opr) \<and> (opr = ''and'' \<or> opr = ''or'')
                    \<and> map_of c ''items'' = Some (JList (map JObj its))))"
  have "\<And>sd. SceneDefinition_init report d \<noteq> Inr sd"
  proof
    fix sd
    assume "SceneDefinition_init report d = Inr sd"
    from init_ok_shape [OF this] bad show False by blast
  qed
  then show "parse report (JObj d)
            = Inl (SceneDefinitionError (''Invalid scene definition: '' @ report d))"
    using parse_result [of report d] by blast
next
  assume a: "map_of d ''actions'' = Some (JList (map JObj as))
       \<and> (map_of d ''triggers'' = None \<and> ts = []
            \<or> map_of d ''triggers'' = Some (JList (map JObj ts)))
       \<and> ((map_of d ''conditions'' = None \<or> map_of d ''conditions'' = Some JNull) \<and> cs = None
            \<or> (\<exists>c opr its. map_of d ''conditions'' = Some (JObj c)
                  \<and> map_of c ''operator'' = Some (JStr opr) \<and> (opr = ''and'' \<or> opr = ''or'')
                  \<and> map_of c ''items'' = Some (JList (map JObj its))
                  \<and> cs = Some \<lparr>operator = opr, items = its\<rparr>))"
  then have c: "validate_conditions (map_of d ''conditions'') = ([], cs)"
    using validate_conditions_ok [of "map_of d ''conditions''" cs] by blast
  from a have t: "(case map_of d ''triggers'' of None \<Rightarrow> ([], [])
                   | Some x \<Rightarrow> validate_dict_list ''triggers'' x) = ([], ts)"
    by (auto simp: validate_dict_list_objects)
  from a have ac: "(case map_of d ''actions'' of None \<Rightarrow> ([''actions''], [])
                   | Some x \<Rightarrow> validate_dict_list ''actions'' x) = ([], as)"
    by (auto simp: validate_dict_list_objects)
  show "parse report (JObj d) = Inr \<lparr>triggers = ts, conditions = cs, actions = as\<rparr>"
    by (simp add: parse_def SceneDefinition_init_def c t ac)
qed

text \<open>
  A definition with an \<^verbatim>\<open>or\<close> group without items is parsed; a definition without
  \<open>actions\<close>, one whose \<open>actions\<close> hold a number, one whose \<open>triggers\<close> are a number
  and one whose group operator is \<^verbatim>\<open>AND\<close> are definition errors.
\<close>

theorem parse_dictionary_witness:
  "parse sample_report (JObj [(''actions'', JList [JObj [(''type'', JStr ''bogus'')]]),
                       (''conditions'', JObj [(''operator'', JStr ''or''), (''items'', JList [])])])
     = Inr \<lparr>triggers = [], conditions = Some \<lparr>operator = ''or'', items = []\<rparr>,
            actions = [[(''type'', JStr ''bogus'')]]\<rparr>
   \<and> parse sample_report (JObj [(''triggers'', JList [])])
       = Inl (SceneDefinitionError (''Invalid scene definition: '' @ sample_report [(''triggers'', JList [])]))
   \<and> parse sample_report (JObj [(''actions'', JList [JInt 1])])
       = Inl (SceneDefinitionError (''Invalid scene definition: '' @ sample_report [(''actions'', JList [JInt 1])]))
   \<and> parse sample_report (JObj [(''actions'', JList []), (''triggers'', JInt 5)])
       = Inl (SceneDefinitionError (''Invalid scene definition: ''
                @ sample_report [(''actions'', JList []), (''triggers'', JInt 5)]))
   \<and> parse sample_report (JObj [(''actions'', JList []),
                         (''conditions'', JObj [(''operator'', JStr ''AND''), (''items'', JList [])])])
       = Inl (SceneDefinitionError (''Invalid scene definition: ''
                @ sample_report [(''actions'', JList []),
                          (''conditions'', JObj [(''operator'', JStr ''AND''), (''items'', JList [])])]))"
proof -
  have p1: "parse sample_report (JObj [(''actions'', JList [JObj [(''type'', JStr ''bogus'')]]),
                (''conditions'', JObj [(''operator'', JStr ''or''), (''items'', JList [])])])
     = Inr \<lparr>triggers = [], conditions = Some \<lparr>operator = ''or'', items = []\<rparr>,
            actions = [[(''type'', JStr ''bogus'')]]\<rparr>"
    using parse_dictionary [where d = "[(''actions'', JList [JObj [(''type'', JStr ''bogus'')]]),
                (''conditions'', JObj [(''operator'', JStr ''or''), (''items'', JList [])])]"
              and as = "[[(''type'', JStr ''bogus'')]]" and ts = "[]"
              and cs = "Some \<lparr>operator = ''or'', items = []\<rparr>" and report = sample_report]
    by simp
  have p2: "parse sample_report (JObj [(''triggers'', JList [])])
       = Inl (SceneDefinitionError (''Invalid scene definition: '' @ sample_report [(''triggers'', JList [])]))"
    using parse_dictionary [where d = "[(''triggers'', JList [])]" and as = "[]" and ts = "[]" and cs = None
              and report = sample_report]
    by simp
  have "\<not> (\<exists>as. JList [JInt 1] = JList (map JObj as))" by auto
  then have p3: "parse sample_report (JObj [(''actions'', JList [JInt 1])])
       = Inl (SceneDefinitionError (''Invalid scene definition: '' @ sample_report [(''actions'', JList [JInt 1])]))"
    using parse_dictionary [where d = "[(''actions'', JList [JInt 1])]" and as = "[]" and ts = "[]" and cs = None
              and report = sample_report]
    by simp
  have p4: "parse sample_report (JObj [(''actions'', JList []), (''triggers'', JInt 5)])
       = Inl (SceneDefinitionError (''Invalid scene definition: ''
                @ sample_report [(''actions'', JList []), (''triggers'', JInt 5)]))"
    using parse_dictionary [where d = "[(''actions'', JList []), (''triggers'', JInt 5)]" and as = "[]"
              and ts = "[]" and cs = None and report = sample_report]
    by simp
  have p5: "parse sample_report (JObj [(''actions'', JList []),
                         (''conditions'', JObj [(''operator'', JStr ''AND''), (''items'', JList [])])])
       = Inl (SceneDefinitionError (''Invalid scene definition: ''
                @ sample_report [(''actions'', JList []),
                          (''conditions'', JObj [(''operator'', JStr ''AND''), (''items'', JList [])])]))"
    using parse_dictionary [where d = "[(''actions'', JList []),
                         (''conditions'', JObj [(''operator'', JStr ''AND''), (''items'', JList [])])]"
              and as = "[]" and ts = "[]" and cs = None and report = sample_report]
    by simp
  from p1 p2 p3 p4 p5 show ?thesis by blast
qed

text \<open>
  Claim C2 at a scene with two valid cron triggers, registered with a running, empty
  scheduler: every job of a scene gets the id \<^verbatim>\<open>scene_<id>\<close> and replaces the job of
  that id, so the schedule of 08:00 is replaced by that of 18:00 and one schedule is
  active where the scene has two time triggers. Registering the scene a second time
  gives the same scheduler.
\<close>

theorem register_scene_keeps_last_trigger:
  "valid_cron_triggers (\<lambda>parts. True) two_cron_scene
     = [[''0'', ''8'', ''*'', ''*'', ''*''], [''0'', ''18'', ''*'', ''*'', ''*'']]
   \<and> map cron_fields (active_schedules (register_scene (\<lambda>parts. True) two_cron_scene 0 empty_scheduler))
     = [[''0'', ''18'', ''*'', ''*'', ''*'']]
   \<and> register_scene (\<lambda>parts. True) two_cron_scene 0
        (register_scene (\<lambda>parts. True) two_cron_scene 0 empty_scheduler)
     = register_scene (\<lambda>parts. True) two_cron_scene 0 empty_scheduler"
  by (simp add: valid_cron_triggers_def two_cron_scene_def scene_with_def dict_get_def split_def
      is_space_def active_schedules_def register_scene_def unregister_scene_def empty_scheduler_def
      start_def add_cron_job_def add_job_def real_add_job_def dict_set_def remove_job_def dict_del_def Let_def)


end
